theory Spec2Isabelle
  imports Complex_Main "HOL-Library.Word"
begin

section \<open>DICOM upload service: the pixel normalisation pipeline of main.py\<close>

text \<open>
  The development embeds \<^verbatim>\<open>_rescale_to_uint8\<close>, \<^verbatim>\<open>_dicom_to_png_and_meta\<close> and
  \<^verbatim>\<open>upload_dicom\<close> of \<^verbatim>\<open>src/main.py\<close> and the \<^verbatim>\<open>Study\<close> schema of
  \<^verbatim>\<open>src/schemas.py\<close>.

  Conventions of the embedding.
  \<^item> A floating-point value is the \<open>real\<close> it denotes. Every operation on Python's
    \<^verbatim>\<open>float\<close> rounds its exact result to binary64 (\<open>f64\<close>), every operation on a
    \<^verbatim>\<open>float32\<close> array rounds to binary32 (\<open>f32\<close>), to nearest with ties to even, and a
    Python scalar that meets a \<^verbatim>\<open>float32\<close> array is rounded to binary32 first.
    Infinities and NaN are not values of the model: where the program overflows the
    binary32 range or divides by zero, the model's value is not the program's, and the
    theorems about sample values state the bounds they need.
  \<^item> A \<^verbatim>\<open>uint8\<close> sample is an \<open>8 word\<close>.
  \<^item> A two-dimensional array is a list of rows.
  \<^item> A Python exception is a value \<open>Exception msg\<close>, where \<open>msg\<close> is what \<^verbatim>\<open>str(e)\<close>
    gives; a computation that may raise returns \<open>exn + 'a\<close> with \<open>Inl\<close> for the raise.
\<close>

subsection \<open>Exceptions and Python values\<close>

datatype exn = Exception string

fun str_exn :: "exn \<Rightarrow> string" where
  "str_exn (Exception m) = m"

text \<open>
  The value of a numeric DICOM element as the decoding library hands it over: \<^verbatim>\<open>None\<close> for
  an empty element, an integer, a decimal number, or a \<^verbatim>\<open>MultiValue\<close> sequence.
\<close>

datatype pyval = PyNone | PyInt int | PyFloat real | PyMulti "pyval list"

text \<open>
  Reading an attribute of the dataset: the element is missing (\<^verbatim>\<open>AttributeError\<close>), reading
  it raises another exception (a malformed element fails to convert), or it has a value.
\<close>

datatype 'a attr = Missing | Raises exn | Present 'a

text \<open>Truncation toward zero, as \<^verbatim>\<open>int(x)\<close> and \<^verbatim>\<open>astype(np.uint8)\<close> do on a float.\<close>

definition trunc :: "real \<Rightarrow> int" where
  "trunc x = (if 0 \<le> x then \<lfloor>x\<rfloor> else \<lceil>x\<rceil>)"

subsection \<open>Binary floating point\<close>

text \<open>Rounding to the nearest integer, a tie going to the even one.\<close>

definition round_half_even :: "real \<Rightarrow> int" where
  "round_half_even t =
     (let f = \<lfloor>t\<rfloor> in
      if t - of_int f < 1 / 2 then f
      else if t - of_int f > 1 / 2 then f + 1
      else if even f then f else f + 1)"

text \<open>
  Rounding to a binary format with \<open>p\<close> significant bits whose least subnormal is
  \<open>2 ^ emin\<close>: the spacing at \<open>x\<close> is \<open>2 ^ e\<close> with \<open>e\<close> the larger of
  \<open>\<lfloor>log 2 |x|\<rfloor> + 1 - p\<close> and \<open>emin\<close>, and \<open>x\<close> goes to the nearest multiple of it.
\<close>

definition fround :: "nat \<Rightarrow> int \<Rightarrow> real \<Rightarrow> real" where
  "fround p emin x =
     (if x = 0 then 0
      else (let e = max (\<lfloor>log 2 \<bar>x\<bar>\<rfloor> + 1 - int p) emin
            in of_int (round_half_even (x / 2 powr of_int e)) * 2 powr of_int e))"

text \<open>binary32, numpy's \<^verbatim>\<open>float32\<close>, and binary64, Python's \<^verbatim>\<open>float\<close>.\<close>

definition f32 :: "real \<Rightarrow> real" where
  "f32 = fround 24 (- 149)"

definition f64 :: "real \<Rightarrow> real" where
  "f64 = fround 53 (- 1074)"

text \<open>
  \<^verbatim>\<open>float(v)\<close>. A \<open>PyFloat\<close> carries a binary64 value; an integer is rounded to
  binary64, and \<^verbatim>\<open>OverflowError\<close> is raised when that leaves the range.
\<close>

fun py_float :: "pyval \<Rightarrow> exn + real" where
  "py_float (PyInt i) =
     (if \<bar>f64 (of_int i)\<bar> < 2 ^ 1024 then Inr (f64 (of_int i))
      else Inl (Exception ''int too large to convert to float''))"
| "py_float (PyFloat r) = Inr r"
| "py_float PyNone = Inl (Exception ''float() argument must be a string or a real number, not NoneType'')"
| "py_float (PyMulti vs) = Inl (Exception ''float() argument must be a string or a real number, not MultiValue'')"

text \<open>\<^verbatim>\<open>int(v)\<close>\<close>

fun py_int :: "pyval \<Rightarrow> exn + int" where
  "py_int (PyInt i) = Inr i"
| "py_int (PyFloat r) = Inr (trunc r)"
| "py_int PyNone = Inl (Exception ''int() argument must be a string, a bytes-like object or a real number, not NoneType'')"
| "py_int (PyMulti vs) = Inl (Exception ''int() argument must be a string, a bytes-like object or a real number, not MultiValue'')"

text \<open>\<^verbatim>\<open>getattr(ds, tag, default)\<close>: the default stands in for a missing attribute only.\<close>

fun getattr_default :: "'a attr \<Rightarrow> 'a \<Rightarrow> exn + 'a" where
  "getattr_default Missing d = Inr d"
| "getattr_default (Raises e) d = Inl e"
| "getattr_default (Present v) d = Inr v"

text \<open>\<^verbatim>\<open>v[0] if hasattr(v, "__len__") else v\<close>: only a \<^verbatim>\<open>MultiValue\<close> has a length.\<close>

fun first_if_sequence :: "pyval \<Rightarrow> exn + pyval" where
  "first_if_sequence (PyMulti []) = Inl (Exception ''list index out of range'')"
| "first_if_sequence (PyMulti (v # vs)) = Inr v"
| "first_if_sequence v = Inr v"

subsection \<open>Arrays\<close>

type_synonym uint8 = "8 word"

datatype ndarray = IntArr "int list list" | FloatArr "real list list"

text \<open>\<^verbatim>\<open>arr.astype(np.float32)\<close>: every sample is rounded to binary32.\<close>

fun astype_float32 :: "ndarray \<Rightarrow> real list list" where
  "astype_float32 (IntArr a) = map (map (\<lambda>i. f32 (of_int i))) a"
| "astype_float32 (FloatArr a) = map (map f32) a"

text \<open>An elementwise operation on a two-dimensional array.\<close>

definition amap :: "('a \<Rightarrow> 'b) \<Rightarrow> 'a list list \<Rightarrow> 'b list list" where
  "amap f a = map (map f) a"

text \<open>\<^verbatim>\<open>shape[0]\<close> and \<^verbatim>\<open>shape[1]\<close> of a two-dimensional array.\<close>

definition shape0 :: "'a list list \<Rightarrow> nat" where
  "shape0 a = length a"

definition shape1 :: "'a list list \<Rightarrow> nat" where
  "shape1 a = (case a of [] \<Rightarrow> 0 | r # rs \<Rightarrow> length r)"

text \<open>\<^verbatim>\<open>np.clip(x, lo, hi)\<close> is \<^verbatim>\<open>minimum(maximum(x, lo), hi)\<close>.\<close>

definition np_clip :: "real \<Rightarrow> real \<Rightarrow> real \<Rightarrow> real" where
  "np_clip x lo hi = min (max x lo) hi"

text \<open>\<^verbatim>\<open>a.min()\<close> and \<^verbatim>\<open>a.max()\<close> over the whole array; numpy raises on an empty one.\<close>

definition amin :: "real list list \<Rightarrow> exn + real" where
  "amin a = (case concat a of
       [] \<Rightarrow> Inl (Exception ''zero-size array to reduction operation minimum which has no identity'')
     | x # xs \<Rightarrow> Inr (fold min xs x))"

definition amax :: "real list list \<Rightarrow> exn + real" where
  "amax a = (case concat a of
       [] \<Rightarrow> Inl (Exception ''zero-size array to reduction operation maximum which has no identity'')
     | x # xs \<Rightarrow> Inr (fold max xs x))"

text \<open>\<^verbatim>\<open>astype(np.uint8)\<close> on a float sample: truncate, then keep the low eight bits.\<close>

definition astype_uint8 :: "real \<Rightarrow> uint8" where
  "astype_uint8 x = word_of_int (trunc x)"

subsection \<open>The normaliser \<^verbatim>\<open>_rescale_to_uint8\<close> (main.py, lines 77 to 97)\<close>

text \<open>
  Line 96: \<^verbatim>\<open>(a * 255.0).clip(0, 255).astype(np.uint8)\<close>. The product is a
  \<^verbatim>\<open>float32\<close>; clipping does not round.
\<close>

definition scale_to_uint8 :: "real list list \<Rightarrow> uint8 list list" where
  "scale_to_uint8 a =
     amap astype_uint8 (amap (\<lambda>x. np_clip x 0 255) (amap (\<lambda>x. f32 (x * 255)) a))"

text \<open>Line 83: the guard of the windowing branch.\<close>

definition windowing_applies :: "real option \<Rightarrow> real option \<Rightarrow> bool" where
  "windowing_applies window_center window_width =
     (window_center \<noteq> None \<and> window_width \<noteq> None \<and> the window_width > 0)"

text \<open>
  Lines 84 and 85: \<^verbatim>\<open>lo\<close> and \<^verbatim>\<open>hi\<close> are Python floats, computed in binary64.
\<close>

definition window_lo :: "real \<Rightarrow> real \<Rightarrow> real" where
  "window_lo c w = f64 (c - f64 (w / 2))"

definition window_hi :: "real \<Rightarrow> real \<Rightarrow> real" where
  "window_hi c w = f64 (c + f64 (w / 2))"

text \<open>
  Lines 86, 87 and 94 work on the \<^verbatim>\<open>float32\<close> array: the bounds of the clip and the
  subtrahend are \<^verbatim>\<open>lo\<close> and \<^verbatim>\<open>hi\<close> rounded to binary32, each on its own, while the
  divisor is the binary64 difference \<^verbatim>\<open>hi - lo\<close> (or \<^verbatim>\<open>mx - mn\<close>) rounded to binary32.
\<close>

definition rescale_to_uint8 :: "ndarray \<Rightarrow> real option \<Rightarrow> real option \<Rightarrow> exn + uint8 list list" where
  "rescale_to_uint8 arr window_center window_width =
     (let a = astype_float32 arr in
      if windowing_applies window_center window_width then
        (let lo = window_lo (the window_center) (the window_width);
             hi = window_hi (the window_center) (the window_width);
             a1 = amap (\<lambda>x. np_clip x (f32 lo) (f32 hi)) a;
             a2 = amap (\<lambda>x. f32 (f32 (x - f32 lo) / f32 (f64 (hi - lo)))) a1
         in Inr (scale_to_uint8 a2))
      else
        (case amin a of
           Inl e \<Rightarrow> Inl e
         | Inr mn \<Rightarrow>
            (case amax a of
               Inl e \<Rightarrow> Inl e
             | Inr mx \<Rightarrow>
                 if mx = mn then Inr (scale_to_uint8 (amap (\<lambda>x. f32 (x * 0)) a))
                 else Inr (scale_to_uint8
                        (amap (\<lambda>x. f32 (f32 (x - f32 mn) / f32 (f64 (mx - mn)))) a)))))"

text \<open>Line 154: \<^verbatim>\<open>255 - img8\<close> on a \<^verbatim>\<open>uint8\<close> array.\<close>

definition invert :: "uint8 list list \<Rightarrow> uint8 list list" where
  "invert img8 = amap (\<lambda>v. 255 - v) img8"

subsection \<open>The decoded dataset\<close>

text \<open>
  What \<^verbatim>\<open>pydicom.dcmread\<close> returns, as far as the pipeline reads it. A text element is
  given by its \<^verbatim>\<open>str()\<close> rendering; \<^verbatim>\<open>pixel_array\<close> raises when the pixel data is
  absent or cannot be decoded.
\<close>

record dataset =
  PatientID :: "string attr"
  PatientName :: "string attr"
  Modality :: "string attr"
  StudyDate :: "string attr"
  SeriesDescription :: "string attr"
  PhotometricInterpretation :: "string attr"
  InstanceNumber :: "pyval attr"
  WindowCenter :: "pyval attr"
  WindowWidth :: "pyval attr"
  RescaleSlope :: "pyval attr"
  RescaleIntercept :: "pyval attr"
  Rows :: "pyval attr"
  Columns :: "pyval attr"
  BitsAllocated :: "pyval attr"
  pixel_array :: "exn + ndarray"

subsection \<open>Tag extraction (main.py, lines 107 to 136)\<close>

text \<open>
  Lines 108 to 112, the local function \<^verbatim>\<open>g\<close>: \<^verbatim>\<open>hasattr\<close> and \<^verbatim>\<open>getattr\<close> run inside
  the \<^verbatim>\<open>try\<close>, every exception gives the default.
\<close>

fun g :: "string attr \<Rightarrow> string option \<Rightarrow> string option" where
  "g Missing dflt = dflt"
| "g (Raises e) dflt = dflt"
| "g (Present s) dflt = Some s"

text \<open>Lines 119 to 123.\<close>

definition instance_number_of :: "dataset \<Rightarrow> int option" where
  "instance_number_of ds =
     (case InstanceNumber ds of
        Missing \<Rightarrow> None
      | Raises e \<Rightarrow> None
      | Present v \<Rightarrow> (case py_int v of Inl e \<Rightarrow> None | Inr i \<Rightarrow> Some i))"

text \<open>
  Lines 131 to 134, one of the two assignments: nothing happens for \<^verbatim>\<open>None\<close>, otherwise
  \<^verbatim>\<open>float(v[0] if hasattr(v, "__len__") else v)\<close>.
\<close>

definition float_first :: "pyval \<Rightarrow> exn + real option" where
  "float_first v =
     (if v = PyNone then Inr None
      else (case first_if_sequence v of
              Inl e \<Rightarrow> Inl e
            | Inr x \<Rightarrow> (case py_float x of Inl e \<Rightarrow> Inl e | Inr r \<Rightarrow> Inr (Some r))))"

text \<open>
  Lines 125 to 136: one \<^verbatim>\<open>try\<close> block around both reads and both assignments. An exception
  leaves the variables as they are at that moment; the result is
  \<open>(window_center, window_width)\<close>.
\<close>

definition window_of :: "dataset \<Rightarrow> real option \<times> real option" where
  "window_of ds =
     (case getattr_default (WindowCenter ds) PyNone of
        Inl e \<Rightarrow> (None, None)
      | Inr wc \<Rightarrow>
         (case getattr_default (WindowWidth ds) PyNone of
            Inl e \<Rightarrow> (None, None)
          | Inr ww \<Rightarrow>
             (case float_first wc of
                Inl e \<Rightarrow> (None, None)
              | Inr center \<Rightarrow>
                 (case float_first ww of
                    Inl e \<Rightarrow> (center, None)
                  | Inr width \<Rightarrow> (center, width)))))"

subsection \<open>Rescale (main.py, lines 140 to 147)\<close>

text \<open>Lines 143 and 144: \<^verbatim>\<open>float(getattr(ds, tag, default))\<close>.\<close>

definition float_attr :: "pyval attr \<Rightarrow> real \<Rightarrow> exn + real" where
  "float_attr a d = (case getattr_default a (PyFloat d) of Inl e \<Rightarrow> Inl e | Inr v \<Rightarrow> py_float v)"

text \<open>
  Slope and intercept are read and coerced in this order inside one \<^verbatim>\<open>try\<close>; an exception
  leaves \<^verbatim>\<open>arr\<close> as the decoder gave it. Line 145 multiplies and adds on the
  \<^verbatim>\<open>float32\<close> array.
\<close>

definition apply_rescale :: "dataset \<Rightarrow> ndarray \<Rightarrow> ndarray" where
  "apply_rescale ds arr =
     (case float_attr (RescaleSlope ds) 1 of
        Inl e \<Rightarrow> arr
      | Inr slope \<Rightarrow>
         (case float_attr (RescaleIntercept ds) 0 of
            Inl e \<Rightarrow> arr
          | Inr intercept \<Rightarrow>
              FloatArr (amap (\<lambda>x. f32 (x + f32 intercept))
                (amap (\<lambda>x. f32 (x * f32 slope)) (astype_float32 arr)))))"

subsection \<open>Normalisation and polarity (main.py, lines 138 to 154)\<close>

definition img8_of :: "dataset \<Rightarrow> exn + uint8 list list" where
  "img8_of ds =
     (let (center, width) = window_of ds in
      case pixel_array ds of
        Inl e \<Rightarrow> Inl e
      | Inr arr \<Rightarrow>
         (case rescale_to_uint8 (apply_rescale ds arr) center width of
            Inl e \<Rightarrow> Inl e
          | Inr img8 \<Rightarrow>
              Inr (if g (PhotometricInterpretation ds) None = Some ''MONOCHROME1''
                   then invert img8 else img8)))"

text \<open>Lines 156 to 158: \<^verbatim>\<open>int(getattr(ds, tag, default))\<close>, outside any \<^verbatim>\<open>try\<close>.\<close>

definition int_attr :: "pyval attr \<Rightarrow> int \<Rightarrow> exn + int" where
  "int_attr a d = (case getattr_default a (PyInt d) of Inl e \<Rightarrow> Inl e | Inr v \<Rightarrow> py_int v)"

subsection \<open>Images and the thumbnail (main.py, lines 160 to 164)\<close>

text \<open>
  An image is its size and the array it shows; when the size is not the array's, the pixels
  are the array resampled to that size.
\<close>

record image =
  im_width :: nat
  im_height :: nat
  im_source :: "uint8 list list"

definition fromarray :: "uint8 list list \<Rightarrow> image" where
  "fromarray a = \<lparr>im_width = shape1 a, im_height = shape0 a, im_source = a\<rparr>"

text \<open>
  Modelled from the spec: \<^verbatim>\<open>Image.thumbnail\<close> is the imaging library's, its code is not
  under \<^verbatim>\<open>src/\<close>. Section 4.4 of the spec describes it as the standard fit within a bounding
  box: both dimensions at most the box, aspect ratio preserved, never upscaling an image
  that already fits. The side that is scaled is rounded to the nearer of the two
  neighbouring pixel counts, and is at least 1.
\<close>

definition round_aspect :: "real \<Rightarrow> (int \<Rightarrow> real) \<Rightarrow> int" where
  "round_aspect number key =
     max (if key \<lfloor>number\<rfloor> \<le> key \<lceil>number\<rceil> then \<lfloor>number\<rfloor> else \<lceil>number\<rceil>) 1"

definition thumbnail_size :: "nat \<times> nat \<Rightarrow> nat \<times> nat \<Rightarrow> nat \<times> nat" where
  "thumbnail_size box sz =
     (let (x, y) = box; (w, h) = sz in
      if x \<ge> w \<and> y \<ge> h then (w, h)
      else
        (let aspect = real w / real h in
         if real x / real y \<ge> aspect
         then (nat (round_aspect (real y * aspect) (\<lambda>n. \<bar>aspect - real_of_int n / real y\<bar>)), y)
         else (x, nat (round_aspect (real x / aspect)
                 (\<lambda>n. if n = 0 then 0 else \<bar>aspect - real x / real_of_int n\<bar>)))))"

definition thumbnail :: "image \<Rightarrow> nat \<times> nat \<Rightarrow> image" where
  "thumbnail im box =
     (let (tw, th) = thumbnail_size box (im_width im, im_height im)
      in im\<lparr>im_width := tw, im_height := th\<rparr>)"

subsection \<open>The record (schemas.py, lines 42 to 62)\<close>

text \<open>The dictionary \<^verbatim>\<open>meta\<close> of main.py, lines 174 to 189.\<close>

record meta =
  patient_id :: "string option"
  patient_name :: "string option"
  modality :: "string option"
  study_date :: "string option"
  series_description :: "string option"
  instance_number :: "int option"
  rows :: int
  cols :: int
  bits_allocated :: int
  photometric_interpretation :: "string option"
  window_center :: "real option"
  window_width :: "real option"
  image_path :: string
  thumbnail_path :: string

text \<open>\<^verbatim>\<open>Study(**meta)\<close>: the two annotation fields take their defaults.\<close>

record study = meta +
  findings :: "string option"
  tags :: "string list"

record study_out = study +
  doc_id :: "string option"

definition Study :: "meta \<Rightarrow> study" where
  "Study m = meta.extend m \<lparr>findings = None, tags = []\<rparr>"

definition StudyOut :: "study \<Rightarrow> string \<Rightarrow> study_out" where
  "StudyOut s i = study.extend s \<lparr>doc_id = Some i\<rparr>"

subsection \<open>Collaborators and the stored state\<close>

text \<open>
  The state an upload can change: the files under the media root and the documents of the
  database, each with its collection and its identifier.
\<close>

record world =
  files :: "string \<rightharpoonup> image"
  documents :: "(string \<times> string \<times> study) list"

text \<open>
  What the collaborators do during one request: the decoder, the token \<^verbatim>\<open>uuid.uuid4().hex\<close>
  returns, whether writing a file at a path fails, and whether the database accepts the
  document and under which identifier.
\<close>

record env =
  MEDIA_ROOT :: string
  dcmread :: "8 word list \<Rightarrow> exn + dataset"
  uuid4_hex :: string
  save_failure :: "string \<Rightarrow> exn option"
  create_failure :: "exn option"
  new_doc_id :: string

text \<open>\<^verbatim>\<open>os.path.join(a, b)\<close> on POSIX, two components.\<close>

definition os_path_join :: "string \<Rightarrow> string \<Rightarrow> string" where
  "os_path_join a b =
     (if b \<noteq> [] \<and> hd b = CHR ''/'' then b
      else if a = [] \<or> last a = CHR ''/'' then a @ b
      else a @ ''/'' @ b)"

text \<open>\<^verbatim>\<open>im.save(path, format="PNG")\<close>: the file holds the image, or the write fails.\<close>

definition save :: "env \<Rightarrow> image \<Rightarrow> string \<Rightarrow> world \<Rightarrow> (exn + unit) \<times> world" where
  "save ev im path w =
     (case save_failure ev path of
        Some e \<Rightarrow> (Inl e, w)
      | None \<Rightarrow> (Inr (), w\<lparr>files := (files w)(path \<mapsto> im)\<rparr>))"

text \<open>
  Modelled from the spec: \<^verbatim>\<open>create_document\<close> is imported from the module \<^verbatim>\<open>database\<close>,
  which is not under \<^verbatim>\<open>src/\<close>. Section 6: \<^verbatim>\<open>create(collection, record) -> id\<close>, append
  only; a failed call stores nothing.
\<close>

definition create_document :: "env \<Rightarrow> string \<Rightarrow> study \<Rightarrow> world \<Rightarrow> (exn + string) \<times> world" where
  "create_document ev collection s w =
     (case create_failure ev of
        Some e \<Rightarrow> (Inl e, w)
      | None \<Rightarrow>
          (Inr (new_doc_id ev),
           w\<lparr>documents := documents w @ [(collection, new_doc_id ev, s)]\<rparr>))"

subsection \<open>\<^verbatim>\<open>_dicom_to_png_and_meta\<close> (main.py, lines 100 to 190)\<close>

definition dicom_to_png_and_meta :: "env \<Rightarrow> 8 word list \<Rightarrow> world \<Rightarrow> (exn + meta) \<times> world" where
  "dicom_to_png_and_meta ev content w =
     (case dcmread ev content of
        Inl e \<Rightarrow> (Inl e, w)
      | Inr ds \<Rightarrow>
     (case img8_of ds of
        Inl e \<Rightarrow> (Inl e, w)
      | Inr img8 \<Rightarrow>
     (case int_attr (Rows ds) (int (shape0 img8)) of
        Inl e \<Rightarrow> (Inl e, w)
      | Inr r \<Rightarrow>
     (case int_attr (Columns ds) (int (shape1 img8)) of
        Inl e \<Rightarrow> (Inl e, w)
      | Inr c \<Rightarrow>
     (case int_attr (BitsAllocated ds) 16 of
        Inl e \<Rightarrow> (Inl e, w)
      | Inr b \<Rightarrow>
     (let im = fromarray img8;
          thumb = thumbnail im (256, 256);
          uid = uuid4_hex ev;
          img_rel = ''images/'' @ uid @ ''.png'';
          thumb_rel = ''thumbnails/'' @ uid @ ''.png''
      in
      case save ev im (os_path_join (MEDIA_ROOT ev) img_rel) w of
        (Inl e, w1) \<Rightarrow> (Inl e, w1)
      | (Inr u1, w1) \<Rightarrow>
     (case save ev thumb (os_path_join (MEDIA_ROOT ev) thumb_rel) w1 of
        (Inl e, w2) \<Rightarrow> (Inl e, w2)
      | (Inr u2, w2) \<Rightarrow>
          (Inr \<lparr>patient_id = g (PatientID ds) None,
                patient_name = g (PatientName ds) None,
                modality = g (Modality ds) None,
                study_date = g (StudyDate ds) None,
                series_description = g (SeriesDescription ds) None,
                instance_number = instance_number_of ds,
                rows = r,
                cols = c,
                bits_allocated = b,
                photometric_interpretation = g (PhotometricInterpretation ds) None,
                window_center = fst (window_of ds),
                window_width = snd (window_of ds),
                image_path = ''/media/'' @ img_rel,
                thumbnail_path = ''/media/'' @ thumb_rel\<rparr>, w2))))))))"

subsection \<open>\<^verbatim>\<open>upload_dicom\<close> (main.py, lines 193 to 205)\<close>

text \<open>\<^verbatim>\<open>HTTPException(status_code, detail)\<close>\<close>

datatype http_exception = HTTPException nat string

text \<open>
  The uploaded file: its name, which lines 195 to 197 inspect without effect, and what
  \<^verbatim>\<open>await file.read()\<close> gives.
\<close>

record upload_file =
  filename :: string
  read :: "exn + 8 word list"

text \<open>Lines 204 and 205: the one \<^verbatim>\<open>except\<close> turns any exception into the error response.\<close>

definition failed :: "exn \<Rightarrow> http_exception" where
  "failed e = HTTPException 400 (''Failed to process DICOM: '' @ str_exn e)"

definition upload_dicom :: "env \<Rightarrow> upload_file \<Rightarrow> world \<Rightarrow> (http_exception + study_out) \<times> world" where
  "upload_dicom ev file w =
     (case read file of
        Inl e \<Rightarrow> (Inl (failed e), w)
      | Inr content \<Rightarrow>
     (case dicom_to_png_and_meta ev content w of
        (Inl e, w1) \<Rightarrow> (Inl (failed e), w1)
      | (Inr m, w1) \<Rightarrow>
     (let s = Study m in
      case create_document ev ''study'' s w1 of
        (Inl e, w2) \<Rightarrow> (Inl (failed e), w2)
      | (Inr i, w2) \<Rightarrow> (Inr (StudyOut s i), w2))))"

subsection \<open>The end-to-end scenario of the spec, section 8\<close>

text \<open>
  A 2 by 2 image with the raw samples 0, 128, 256, 512, window centre 128 and width 256,
  slope 1 and intercept 0, \<^verbatim>\<open>MONOCHROME2\<close>, 16 bits allocated; no other element.
\<close>

definition e2e_dataset :: dataset where
  "e2e_dataset =
     \<lparr>PatientID = Missing, PatientName = Missing, Modality = Missing, StudyDate = Missing,
      SeriesDescription = Missing, PhotometricInterpretation = Present ''MONOCHROME2'',
      InstanceNumber = Missing,
      WindowCenter = Present (PyFloat 128), WindowWidth = Present (PyFloat 256),
      RescaleSlope = Present (PyFloat 1), RescaleIntercept = Present (PyFloat 0),
      Rows = Present (PyInt 2), Columns = Present (PyInt 2), BitsAllocated = Present (PyInt 16),
      pixel_array = Inr (IntArr [[0, 128], [256, 512]])\<rparr>"

text \<open>A request in which every collaborator succeeds, and the state before any upload.\<close>

definition ok_env :: "dataset \<Rightarrow> string \<Rightarrow> env" where
  "ok_env ds uid =
     \<lparr>MEDIA_ROOT = ''/srv/media'', dcmread = (\<lambda>content. Inr ds), uuid4_hex = uid,
      save_failure = (\<lambda>path. None), create_failure = None, new_doc_id = ''doc'' @ uid\<rparr>"

definition some_file :: upload_file where
  "some_file = \<lparr>filename = ''scan.dcm'', read = Inr [68, 73, 67, 77]\<rparr>"

definition empty_world :: world where
  "empty_world = \<lparr>files = Map.empty, documents = []\<rparr>"

section \<open>Properties\<close>

subsection \<open>Rounding\<close>

lemma round_half_even_of_int: "round_half_even (of_int n) = n"
  by (simp add: round_half_even_def)

lemma round_half_even_bounds:
  "\<lfloor>t\<rfloor> \<le> round_half_even t" "round_half_even t \<le> \<lfloor>t\<rfloor> + 1"
  by (simp_all add: round_half_even_def Let_def)

lemma round_half_even_mono:
  assumes "s \<le> t"
  shows "round_half_even s \<le> round_half_even t"
proof (cases "\<lfloor>s\<rfloor> = \<lfloor>t\<rfloor>")
  case True
  then show ?thesis
    using assms by (auto simp add: round_half_even_def Let_def)
next
  case False
  then have "\<lfloor>s\<rfloor> < \<lfloor>t\<rfloor>"
    using assms floor_mono [of s t] by linarith
  then show ?thesis
    using round_half_even_bounds(2) [of s] round_half_even_bounds(1) [of t] by linarith
qed

lemma round_half_even_ge: "of_int n \<le> t \<Longrightarrow> n \<le> round_half_even t"
  using round_half_even_mono [of "of_int n" t] by (simp add: round_half_even_of_int)

lemma round_half_even_le: "t \<le> of_int n \<Longrightarrow> round_half_even t \<le> n"
  using round_half_even_mono [of t "of_int n"] by (simp add: round_half_even_of_int)

lemma round_half_even_minus: "round_half_even (- t) = - round_half_even t"
proof (cases "t = of_int \<lfloor>t\<rfloor>")
  case True
  then obtain n where "t = of_int n" ..
  then show ?thesis
    by (simp add: round_half_even_of_int flip: of_int_minus)
next
  case False
  then have lt: "of_int \<lfloor>t\<rfloor> < t"
    using of_int_floor_le [of t] by linarith
  have c: "\<lceil>t\<rceil> = \<lfloor>t\<rfloor> + 1"
    using False by (simp add: ceiling_altdef)
  have fm: "\<lfloor>- t\<rfloor> = - \<lfloor>t\<rfloor> - 1"
    using c by (simp add: floor_minus)
  have fr: "- t - of_int \<lfloor>- t\<rfloor> = 1 - (t - of_int \<lfloor>t\<rfloor>)"
    unfolding fm by simp
  show ?thesis
    unfolding round_half_even_def Let_def fr
    unfolding fm
    by auto
qed

lemma fround_0: "fround p emin 0 = 0"
  by (simp add: fround_def)

lemma fround_minus: "fround p emin (- x) = - fround p emin x"
  by (simp add: fround_def Let_def round_half_even_minus flip: minus_divide_left)

lemma pow2_pos: "0 < (2::real) powr y"
  by simp

text \<open>The binade of a positive number.\<close>

lemma binade:
  assumes "0 < x"
  shows "2 powr real_of_int \<lfloor>log 2 x\<rfloor> \<le> x" and "x < 2 powr (of_int \<lfloor>log 2 x\<rfloor> + 1)"
proof -
  have "\<lfloor>log 2 x\<rfloor> = \<lfloor>log 2 x\<rfloor>" ..
  then have "2 powr real_of_int \<lfloor>log 2 x\<rfloor> \<le> x \<and> x < 2 powr (of_int (\<lfloor>log 2 x\<rfloor> + 1))"
    using floor_log_eq_powr_iff [of x 2 "\<lfloor>log 2 x\<rfloor>"] assms by simp
  then show "2 powr real_of_int \<lfloor>log 2 x\<rfloor> \<le> x" and "x < 2 powr (of_int \<lfloor>log 2 x\<rfloor> + 1)"
    by simp_all
qed

lemma pow2_int: "0 \<le> n \<Longrightarrow> (2::real) powr real_of_int n = real_of_int (2 ^ nat n)"
  by (simp add: powr_real_of_int)

lemma fround_nonneg:
  assumes "0 \<le> x"
  shows "0 \<le> fround p emin x"
proof (cases "x = 0")
  case True
  then show ?thesis by (simp add: fround_0)
next
  case False
  let ?e = "max (\<lfloor>log 2 \<bar>x\<bar>\<rfloor> + 1 - int p) emin"
  have "0 \<le> x / 2 powr real_of_int ?e" using assms by simp
  then have "0 \<le> round_half_even (x / 2 powr real_of_int ?e)"
    using round_half_even_ge [of 0 "x / 2 powr real_of_int ?e"] by simp
  then show ?thesis
    using False by (simp add: fround_def Let_def)
qed

lemma fround_mono_pos:
  assumes "0 < x" "x \<le> y" "0 < p"
  shows "fround p emin x \<le> fround p emin y"
proof -
  let ?kx = "\<lfloor>log 2 x\<rfloor>" and ?ky = "\<lfloor>log 2 y\<rfloor>"
  let ?ex = "max (?kx + 1 - int p) emin" and ?ey = "max (?ky + 1 - int p) emin"
  have y: "0 < y" using assms by simp
  have k: "?kx \<le> ?ky"
    using assms y by (intro floor_mono) simp
  have fx: "fround p emin x = real_of_int (round_half_even (x / 2 powr real_of_int ?ex)) * 2 powr real_of_int ?ex"
    using assms(1) by (simp add: fround_def Let_def)
  have fy: "fround p emin y = real_of_int (round_half_even (y / 2 powr real_of_int ?ey)) * 2 powr real_of_int ?ey"
    using y by (simp add: fround_def Let_def)
  show ?thesis
  proof (cases "?ex = ?ey")
    case True
    have "x / 2 powr real_of_int ?ey \<le> y / 2 powr real_of_int ?ey"
      using assms(2) by (simp add: divide_right_mono)
    then have "round_half_even (x / 2 powr real_of_int ?ey) \<le> round_half_even (y / 2 powr real_of_int ?ey)"
      by (rule round_half_even_mono)
    then have "real_of_int (round_half_even (x / 2 powr real_of_int ?ey)) * 2 powr real_of_int ?ey
        \<le> real_of_int (round_half_even (y / 2 powr real_of_int ?ey)) * 2 powr real_of_int ?ey"
      by (simp add: mult_right_mono)
    then show ?thesis unfolding fx fy True .
  next
    case False
    then have lt: "?ex < ?ey" using k by linarith
    then have ey: "?ey = ?ky + 1 - int p" by linarith
    have kk: "?kx + 1 \<le> ?ky" using lt ey by linarith
    let ?b = "(2::real) powr real_of_int ?ky"
    have xb: "x \<le> ?b"
    proof -
      have "x < 2 powr (of_int ?kx + 1)" by (rule binade(2) [OF assms(1)])
      also have "\<dots> \<le> ?b"
      proof (rule powr_mono)
        have "real_of_int (?kx + 1) \<le> real_of_int ?ky"
          using kk by (simp only: of_int_le_iff)
        then show "real_of_int ?kx + 1 \<le> real_of_int ?ky" by simp
      qed simp
      finally show ?thesis by simp
    qed
    have by': "?b \<le> y" by (rule binade(1) [OF y])
    have d: "0 \<le> ?ky - ?ex" using lt ey assms(3) by linarith
    have lo: "fround p emin x \<le> ?b"
    proof -
      have "x / 2 powr real_of_int ?ex \<le> ?b / 2 powr real_of_int ?ex"
        using xb by (simp add: divide_right_mono)
      also have "?b / 2 powr real_of_int ?ex = 2 powr real_of_int (?ky - ?ex)"
        by (simp add: powr_diff)
      also have "\<dots> = real_of_int (2 ^ nat (?ky - ?ex))"
        by (rule pow2_int [OF d])
      finally have "round_half_even (x / 2 powr real_of_int ?ex) \<le> 2 ^ nat (?ky - ?ex)"
        by (rule round_half_even_le)
      then have "real_of_int (round_half_even (x / 2 powr real_of_int ?ex)) * 2 powr real_of_int ?ex
          \<le> real_of_int (2 ^ nat (?ky - ?ex)) * 2 powr real_of_int ?ex"
        by (intro mult_right_mono) (simp_all del: of_int_power)
      also have "real_of_int (2 ^ nat (?ky - ?ex)) * 2 powr real_of_int ?ex
          = 2 powr real_of_int (?ky - ?ex) * 2 powr real_of_int ?ex"
        by (simp only: pow2_int [OF d])
      also have "\<dots> = ?b"
        by (simp add: powr_diff)
      finally show ?thesis unfolding fx .
    qed
    have p1: "0 \<le> int p - 1" using assms(3) by simp
    have hi: "?b \<le> fround p emin y"
    proof -
      have "?b / 2 powr real_of_int ?ey \<le> y / 2 powr real_of_int ?ey"
        using by' by (simp add: divide_right_mono)
      moreover have "?b / 2 powr real_of_int ?ey = 2 powr real_of_int (int p - 1)"
        unfolding ey by (simp add: powr_diff powr_add)
      moreover have "2 powr real_of_int (int p - 1) = real_of_int (2 ^ nat (int p - 1))"
        by (rule pow2_int [OF p1])
      ultimately have "real_of_int (2 ^ nat (int p - 1)) \<le> y / 2 powr real_of_int ?ey"
        by simp
      then have "2 ^ nat (int p - 1) \<le> round_half_even (y / 2 powr real_of_int ?ey)"
        by (rule round_half_even_ge)
      then have a: "real_of_int (2 ^ nat (int p - 1)) * 2 powr real_of_int ?ey
          \<le> real_of_int (round_half_even (y / 2 powr real_of_int ?ey)) * 2 powr real_of_int ?ey"
        by (intro mult_right_mono) (simp_all del: of_int_power)
      have b: "real_of_int (2 ^ nat (int p - 1)) * 2 powr real_of_int ?ey = ?b"
        unfolding pow2_int [OF p1, symmetric] ey by (simp add: powr_diff powr_add)
      from a show ?thesis unfolding fy b .
    qed
    show ?thesis using lo hi by linarith
  qed
qed

lemma fround_mono:
  assumes "x \<le> y" "0 < p"
  shows "fround p emin x \<le> fround p emin y"
proof -
  consider (pos) "0 < x" | (mid) "x \<le> 0" "0 \<le> y" | (neg) "y < 0"
    using assms(1) by linarith
  then show ?thesis
  proof cases
    case pos
    then show ?thesis using fround_mono_pos assms by simp
  next
    case mid
    have "fround p emin x \<le> 0"
      using fround_nonneg [of "- x" p emin] mid(1) by (simp add: fround_minus)
    moreover have "0 \<le> fround p emin y"
      using fround_nonneg mid(2) by simp
    ultimately show ?thesis by linarith
  next
    case neg
    have "fround p emin (- y) \<le> fround p emin (- x)"
      using fround_mono_pos [of "- y" "- x" p emin] neg assms by simp
    then show ?thesis by (simp add: fround_minus)
  qed
qed

lemma pow2_less_cancel: "(2::real) powr a < 2 powr b \<Longrightarrow> a < b"
  by simp

lemma fround_exact:
  assumes x: "x = real_of_int m * 2 powr real_of_int e" and m: "\<bar>m\<bar> < 2 ^ p" and e: "emin \<le> e"
  shows "fround p emin x = x"
proof (cases "m = 0")
  case True
  then show ?thesis using x by (simp add: fround_0)
next
  case False
  then have x0: "x \<noteq> 0" using x by simp
  let ?k = "\<lfloor>log 2 \<bar>x\<bar>\<rfloor>"
  let ?E = "max (?k + 1 - int p) emin"
  have ax: "\<bar>x\<bar> = real_of_int \<bar>m\<bar> * 2 powr real_of_int e"
    unfolding x by (simp add: abs_mult)
  have "real_of_int \<bar>m\<bar> < real_of_int (2 ^ p)"
    using m by (simp only: of_int_less_iff)
  then have "\<bar>x\<bar> < real_of_int (2 ^ p) * 2 powr real_of_int e"
    unfolding ax by (simp del: of_int_abs)
  also have "real_of_int (2 ^ p) * 2 powr real_of_int e = 2 powr real_of_int (int p + e)"
    by (simp add: powr_add powr_realpow)
  finally have ub: "\<bar>x\<bar> < 2 powr real_of_int (int p + e)" .
  have "2 powr real_of_int ?k \<le> \<bar>x\<bar>"
    using binade(1) [of "\<bar>x\<bar>"] x0 by simp
  then have "(2::real) powr real_of_int ?k < 2 powr real_of_int (int p + e)"
    using ub by linarith
  then have "real_of_int ?k < real_of_int (int p + e)"
    by (rule pow2_less_cancel)
  then have k: "?k < int p + e" by (simp only: of_int_less_iff)
  have E: "?E \<le> e" using k e by linarith
  then have d: "0 \<le> e - ?E" by simp
  have q: "x / 2 powr real_of_int ?E = real_of_int (m * 2 ^ nat (e - ?E))"
  proof -
    have "x / 2 powr real_of_int ?E = real_of_int m * (2 powr real_of_int e / 2 powr real_of_int ?E)"
      unfolding x by simp
    also have "2 powr real_of_int e / 2 powr real_of_int ?E = 2 powr real_of_int (e - ?E)"
      by (simp add: powr_diff)
    also have "\<dots> = real_of_int (2 ^ nat (e - ?E))"
      by (rule pow2_int [OF d])
    finally show ?thesis by simp
  qed
  have "fround p emin x
      = real_of_int (round_half_even (x / 2 powr real_of_int ?E)) * 2 powr real_of_int ?E"
    using x0 by (simp add: fround_def Let_def)
  also have "\<dots> = real_of_int (m * 2 ^ nat (e - ?E)) * 2 powr real_of_int ?E"
    unfolding q round_half_even_of_int ..
  also have "\<dots> = x / 2 powr real_of_int ?E * 2 powr real_of_int ?E"
    unfolding q ..
  also have "\<dots> = x" by simp
  finally show ?thesis .
qed

lemma fround_exact_int:
  assumes "\<bar>n\<bar> < 2 ^ p" "emin \<le> 0"
  shows "fround p emin (real_of_int n) = real_of_int n"
  by (rule fround_exact [where m = n and e = 0, OF _ assms]) simp

lemma fround_exact_frac:
  assumes "\<bar>m\<bar> < 2 ^ p" "emin \<le> - int j"
  shows "fround p emin (real_of_int m / 2 ^ j) = real_of_int m / 2 ^ j"
proof (rule fround_exact [OF _ assms])
  show "real_of_int m / 2 ^ j = real_of_int m * 2 powr real_of_int (- int j)"
    by (simp add: powr_minus powr_realpow divide_inverse)
qed

text \<open>The rounded value is \<open>m * 2 ^ e\<close> with at most \<open>p\<close> significant bits.\<close>

lemma fround_shape:
  assumes "0 < x"
  shows "\<exists>m e. fround p emin x = real_of_int m * 2 powr real_of_int e \<and> 0 \<le> m \<and> m \<le> 2 ^ p \<and> emin \<le> e"
proof -
  let ?k = "\<lfloor>log 2 \<bar>x\<bar>\<rfloor>"
  let ?E = "max (?k + 1 - int p) emin"
  let ?r = "round_half_even (x / 2 powr real_of_int ?E)"
  have f: "fround p emin x = real_of_int ?r * 2 powr real_of_int ?E"
    using assms by (simp add: fround_def Let_def)
  have r0: "0 \<le> ?r"
    using round_half_even_ge [of 0 "x / 2 powr real_of_int ?E"] assms by simp
  have d: "?k + 1 - ?E \<le> int p" by linarith
  have "x < 2 powr (real_of_int ?k + 1)"
    using binade(2) [of "\<bar>x\<bar>"] assms by simp
  then have "x / 2 powr real_of_int ?E < 2 powr (real_of_int ?k + 1) / 2 powr real_of_int ?E"
    by (simp add: divide_strict_right_mono)
  also have "2 powr (real_of_int ?k + 1) / 2 powr real_of_int ?E = 2 powr real_of_int (?k + 1 - ?E)"
    by (simp add: powr_diff)
  also have "\<dots> \<le> 2 powr real_of_int (int p)"
  proof (rule powr_mono)
    show "real_of_int (?k + 1 - ?E) \<le> real_of_int (int p)"
      using d by (simp only: of_int_le_iff)
  qed simp
  also have "\<dots> = real_of_int (2 ^ p)"
    by (simp add: powr_realpow)
  finally have "x / 2 powr real_of_int ?E \<le> real_of_int (2 ^ p)"
    by simp
  then have r1: "?r \<le> 2 ^ p"
    by (rule round_half_even_le)
  have e: "emin \<le> ?E" by simp
  show ?thesis using f r0 r1 e by blast
qed

lemma fround_idem_pos:
  assumes "0 < x" "0 < p"
  shows "fround p emin (fround p emin x) = fround p emin x"
proof -
  obtain m e where f: "fround p emin x = real_of_int m * 2 powr real_of_int e"
    and m: "0 \<le> m" "m \<le> 2 ^ p" and e: "emin \<le> e"
    using fround_shape [OF assms(1)] by blast
  show ?thesis
  proof (cases "m < 2 ^ p")
    case True
    then have "\<bar>m\<bar> < 2 ^ p" using m(1) by simp
    then show ?thesis using fround_exact [OF f _ e] by simp
  next
    case False
    then have mm: "m = 2 ^ p" using m(2) by simp
    obtain q where p: "p = Suc q" using assms(2) by (cases p) auto
    have "real_of_int m * 2 powr real_of_int e = real_of_int (2 ^ q) * 2 powr real_of_int (e + 1)"
      unfolding mm p by (simp add: powr_add)
    then have f': "fround p emin x = real_of_int (2 ^ q) * 2 powr real_of_int (e + 1)"
      using f by simp
    have "\<bar>(2::int) ^ q\<bar> < 2 ^ p" unfolding p by simp
    moreover have "emin \<le> e + 1" using e by simp
    ultimately show ?thesis using fround_exact [OF f'] by simp
  qed
qed

lemma fround_idem:
  assumes "0 < p"
  shows "fround p emin (fround p emin x) = fround p emin x"
proof -
  consider "x = 0" | "0 < x" | "x < 0" by linarith
  then show ?thesis
  proof cases
    case 1
    then show ?thesis by (simp add: fround_0)
  next
    case 2
    then show ?thesis by (rule fround_idem_pos [OF _ assms])
  next
    case 3
    then have "fround p emin (fround p emin (- x)) = fround p emin (- x)"
      using fround_idem_pos [of "- x" p emin] assms by simp
    then show ?thesis by (simp add: fround_minus)
  qed
qed

lemma f32_tie: "f32 16777217 = 16777216"
proof -
  have k: "\<lfloor>log 2 (16777217::real)\<rfloor> = 24"
    by (subst floor_log_eq_powr_iff) simp_all
  have n: "(16777217::real) \<noteq> 0" by simp
  show ?thesis
    unfolding f32_def fround_def
    by (simp add: k round_half_even_def)
qed

subsection \<open>Values that are not rounded\<close>

lemma f32_0: "f32 0 = 0"
  by (simp add: f32_def fround_0)

lemma f64_0: "f64 0 = 0"
  by (simp add: f64_def fround_0)

lemma f32_int: "\<bar>n\<bar> < 16777216 \<Longrightarrow> f32 (real_of_int n) = real_of_int n"
  unfolding f32_def by (rule fround_exact_int) simp_all

lemma f64_int: "\<bar>n\<bar> < 9007199254740992 \<Longrightarrow> f64 (real_of_int n) = real_of_int n"
  unfolding f64_def by (rule fround_exact_int) simp_all

lemma f32_1: "f32 1 = 1"
  using f32_int [of 1] by simp

lemma f64_1: "f64 1 = 1"
  using f64_int [of 1] by simp

lemma f32_numeral: "(numeral k :: int) < 16777216 \<Longrightarrow> f32 (numeral k) = numeral k"
  using f32_int [of "numeral k"] by simp

lemma f64_numeral: "(numeral k :: int) < 9007199254740992 \<Longrightarrow> f64 (numeral k) = numeral k"
  using f64_int [of "numeral k"] by simp

lemma f32_neg_numeral: "(numeral k :: int) < 16777216 \<Longrightarrow> f32 (- numeral k) = - numeral k"
  using f32_int [of "- numeral k"] by simp

lemma f64_neg_numeral:
  "(numeral k :: int) < 9007199254740992 \<Longrightarrow> f64 (- numeral k) = - numeral k"
  using f64_int [of "- numeral k"] by simp

lemma f32_frac:
  "\<bar>m\<bar> < 16777216 \<Longrightarrow> j \<le> 149 \<Longrightarrow> f32 (real_of_int m / 2 ^ j) = real_of_int m / 2 ^ j"
  unfolding f32_def by (rule fround_exact_frac) simp_all

lemma f32_halves:
  "f32 (1 / 2) = 1 / 2" "f32 (1 / 4) = 1 / 4"
  "(numeral k :: int) < 16777216 \<Longrightarrow> f32 (numeral k / 2) = numeral k / 2"
  "(numeral k :: int) < 16777216 \<Longrightarrow> f32 (numeral k / 4) = numeral k / 4"
  using f32_frac [of 1 1] f32_frac [of 1 2] f32_frac [of "numeral k" 1] f32_frac [of "numeral k" 2]
  by simp_all

lemma f32_255: "f32 255 = 255"
  by (simp add: f32_numeral)

lemma f32_pow24: "f32 16777216 = 16777216"
proof -
  have "fround 24 (- 149) (real_of_int 1 * 2 powr real_of_int 24) = real_of_int 1 * 2 powr real_of_int 24"
    by (rule fround_exact [OF refl]) simp_all
  then show ?thesis by (simp add: f32_def)
qed

lemma f32_20000000: "f32 20000000 = 20000000"
proof -
  have "fround 24 (- 149) (real_of_int 5000000 * 2 powr real_of_int 2)
      = real_of_int 5000000 * 2 powr real_of_int 2"
    by (rule fround_exact [OF refl]) simp_all
  then show ?thesis by (simp add: f32_def)
qed

lemma f32_mono: "x \<le> y \<Longrightarrow> f32 x \<le> f32 y"
  unfolding f32_def by (rule fround_mono) simp_all

lemma f64_mono: "x \<le> y \<Longrightarrow> f64 x \<le> f64 y"
  unfolding f64_def by (rule fround_mono) simp_all

lemma f32_idem: "f32 (f32 x) = f32 x"
  unfolding f32_def by (rule fround_idem) simp

lemma f32_nonneg: "0 \<le> x \<Longrightarrow> 0 \<le> f32 x"
  using f32_mono [of 0 x] by (simp add: f32_0)

lemma f64_nonneg: "0 \<le> x \<Longrightarrow> 0 \<le> f64 x"
  using f64_mono [of 0 x] by (simp add: f64_0)

lemmas float_vals = f32_0 f64_0 f32_1 f64_1 f32_numeral f64_numeral f32_neg_numeral
  f64_neg_numeral f32_halves f32_idem


subsection \<open>Elementwise operations\<close>

lemma amap_amap: "amap f (amap h a) = amap (f \<circ> h) a"
  by (simp add: amap_def)

lemma length_amap: "length (amap f a) = length a"
  by (simp add: amap_def)

lemma shape0_amap: "shape0 (amap f a) = shape0 a"
  by (simp add: shape0_def amap_def)

lemma shape1_amap: "shape1 (amap f a) = shape1 a"
  by (cases a) (simp_all add: shape1_def amap_def)

lemma map_length_amap: "map length (amap f a) = map length a"
  by (simp add: amap_def comp_def)

lemma scale_to_uint8_amap:
  "scale_to_uint8 (amap f a) = amap (\<lambda>x. astype_uint8 (np_clip (f32 (f x * 255)) 0 255)) a"
  by (simp add: scale_to_uint8_def amap_def comp_def)

text \<open>Every output sample stands at the position of the input sample it is computed from.\<close>

lemma samples_amap:
  "list_all2 (list_all2 R) a (amap f a) \<longleftrightarrow> (\<forall>row \<in> set a. \<forall>x \<in> set row. R x (f x))"
  by (simp add: amap_def list_all2_map2 list_all2_same)

lemma astype_uint8_0: "astype_uint8 0 = 0"
  by (simp add: astype_uint8_def trunc_def)

lemma astype_uint8_255: "astype_uint8 255 = 255"
  by (simp add: astype_uint8_def trunc_def)

subsection \<open>Samples that stay in range are truncated without wrapping\<close>

lemma uint_astype_uint8:
  assumes "0 \<le> v" "v \<le> 255"
  shows "uint (astype_uint8 (np_clip v 0 255)) = \<lfloor>v\<rfloor>"
proof -
  have c: "np_clip v 0 255 = v" using assms by (simp add: np_clip_def)
  have f0: "0 \<le> \<lfloor>v\<rfloor>" using assms by simp
  have f1: "\<lfloor>v\<rfloor> < 256" using assms by (simp add: floor_less_iff)
  have "uint (word_of_int \<lfloor>v\<rfloor> :: 8 word) = \<lfloor>v\<rfloor>"
    using f0 f1 by (simp add: uint_word_of_int take_bit_eq_mod)
  then show ?thesis using assms c by (simp add: astype_uint8_def trunc_def)
qed

lemma clip_0: "astype_uint8 (np_clip 0 0 255) = 0"
  by (simp add: np_clip_def astype_uint8_0)

lemma clip_255: "astype_uint8 (np_clip 255 0 255) = 255"
  by (simp add: np_clip_def astype_uint8_255)

subsection \<open>Least and greatest sample\<close>

lemma amin_Min:
  assumes "concat a \<noteq> []"
  shows "amin a = Inr (Min (set (concat a)))"
proof -
  obtain x xs where c: "concat a = x # xs"
    using assms by (cases "concat a") auto
  have "Min (set (x # xs)) = fold min xs x"
    by (rule Min.set_eq_fold)
  then show ?thesis
    by (simp only: amin_def c list.case)
qed

lemma amax_Max:
  assumes "concat a \<noteq> []"
  shows "amax a = Inr (Max (set (concat a)))"
proof -
  obtain x xs where c: "concat a = x # xs"
    using assms by (cases "concat a") auto
  have "Max (set (x # xs)) = fold max xs x"
    by (rule Max.set_eq_fold)
  then show ?thesis
    by (simp only: amax_def c list.case)
qed



subsection \<open>Artifact paths\<close>

lemma os_path_join_relative:
  assumes "b \<noteq> []" "hd b \<noteq> CHR ''/''"
  shows "os_path_join a b = (if a = [] \<or> last a = CHR ''/'' then a else a @ ''/'') @ b"
  using assms by (simp add: os_path_join_def)

lemma join_images:
  "os_path_join a (''images/'' @ u @ ''.png'') =
     (if a = [] \<or> last a = CHR ''/'' then a else a @ ''/'') @ ''images/'' @ u @ ''.png''"
  by (rule os_path_join_relative) simp_all

lemma join_thumbnails:
  "os_path_join a (''thumbnails/'' @ u @ ''.png'') =
     (if a = [] \<or> last a = CHR ''/'' then a else a @ ''/'') @ ''thumbnails/'' @ u @ ''.png''"
  by (rule os_path_join_relative) simp_all

lemma image_thumb_paths_differ:
  "os_path_join a (''images/'' @ u @ ''.png'') \<noteq> os_path_join a (''thumbnails/'' @ v @ ''.png'')"
  unfolding join_images join_thumbnails by simp



subsection \<open>Runs of the pipeline\<close>

text \<open>The record the pipeline builds.\<close>

lemma dicom_run:
  assumes "dcmread ev content = Inr ds" "img8_of ds = Inr img8"
    "int_attr (Rows ds) (int (shape0 img8)) = Inr r"
    "int_attr (Columns ds) (int (shape1 img8)) = Inr c"
    "int_attr (BitsAllocated ds) 16 = Inr b"
    "save_failure ev (os_path_join (MEDIA_ROOT ev) (''images/'' @ uuid4_hex ev @ ''.png'')) = None"
    "save_failure ev (os_path_join (MEDIA_ROOT ev) (''thumbnails/'' @ uuid4_hex ev @ ''.png'')) = None"
  shows "dicom_to_png_and_meta ev content w =
     (Inr \<lparr>patient_id = g (PatientID ds) None,
                patient_name = g (PatientName ds) None,
                modality = g (Modality ds) None,
                study_date = g (StudyDate ds) None,
                series_description = g (SeriesDescription ds) None,
                instance_number = instance_number_of ds,
                rows = r,
                cols = c,
                bits_allocated = b,
                photometric_interpretation = g (PhotometricInterpretation ds) None,
                window_center = fst (window_of ds),
                window_width = snd (window_of ds),
                image_path = ''/media/images/'' @ uuid4_hex ev @ ''.png'',
                thumbnail_path = ''/media/thumbnails/'' @ uuid4_hex ev @ ''.png''\<rparr>,
      w\<lparr>files := (files w)
         (os_path_join (MEDIA_ROOT ev) (''images/'' @ uuid4_hex ev @ ''.png'') \<mapsto> fromarray img8,
          os_path_join (MEDIA_ROOT ev) (''thumbnails/'' @ uuid4_hex ev @ ''.png'') \<mapsto>
            thumbnail (fromarray img8) (256, 256))\<rparr>)"
  using assms by (simp add: dicom_to_png_and_meta_def save_def Let_def)




subsection \<open>The end-to-end scenario\<close>

lemmas norm_defs = rescale_to_uint8_def windowing_applies_def amin_def amax_def scale_to_uint8_def
      amap_def np_clip_def astype_uint8_def trunc_def window_lo_def window_hi_def float_vals

lemma e2e_window: "window_of e2e_dataset = (Some 128, Some 256)"
  by (simp add: window_of_def e2e_dataset_def float_first_def)

lemma e2e_rescale:
  "apply_rescale e2e_dataset (IntArr [[0, 128], [256, 512]]) = FloatArr [[0, 128], [256, 512]]"
  by (simp add: apply_rescale_def e2e_dataset_def float_attr_def amap_def float_vals)

lemma e2e_img8: "img8_of e2e_dataset = Inr [[0, 127], [255, 255]]"
  unfolding img8_of_def e2e_window
  by (simp add: e2e_rescale [unfolded e2e_dataset_def] e2e_dataset_def norm_defs)

lemma upload_run:
  assumes "read file = Inr content" "dicom_to_png_and_meta ev content w = (Inr m, w1)"
    "create_failure ev = None"
  shows "upload_dicom ev file w =
    (Inr (StudyOut (Study m) (new_doc_id ev)),
     w1\<lparr>documents := documents w1 @ [(''study'', new_doc_id ev, Study m)]\<rparr>)"
  using assms by (simp add: upload_dicom_def create_document_def Let_def)

text \<open>
  Claim C3, as stated, fails: the sample 128 is mapped to \<open>128 / 256 * 255 = 127.5\<close> and
  truncated to 127, so the normalised image is 0, 127, 255, 255 and not 0, 128, 255, 255.
\<close>

theorem e2e_counterexample: "img8_of e2e_dataset \<noteq> Inr [[0, 128], [255, 255]]"
  by (simp add: e2e_img8)

text \<open>
  Claim C3, amended. For the scenario's dataset the real values equal the raw values, the
  window is centre 128 and width 256, the normalised image is 0, 127, 255, 255 with no
  inversion, and when the collaborators succeed the upload persists one record with
  \<open>rows = 2\<close>, \<open>cols = 2\<close>, \<open>window_center = 128\<close>, \<open>window_width = 256\<close> and two
  distinct artifact paths, both files being written.
\<close>

theorem e2e_scenario:
  assumes "read file = Inr content" "dcmread ev content = Inr e2e_dataset"
    "\<forall>p. save_failure ev p = None" "create_failure ev = None"
  shows "astype_float32 (apply_rescale e2e_dataset (IntArr [[0, 128], [256, 512]])) =
           astype_float32 (IntArr [[0, 128], [256, 512]])
    \<and> window_of e2e_dataset = (Some 128, Some 256)
    \<and> img8_of e2e_dataset = Inr [[0, 127], [255, 255]]
    \<and> (\<exists>out w'. upload_dicom ev file w = (Inr out, w')
         \<and> rows out = 2 \<and> cols out = 2
         \<and> window_center out = Some 128 \<and> window_width out = Some 256
         \<and> image_path out = ''/media/images/'' @ uuid4_hex ev @ ''.png''
         \<and> thumbnail_path out = ''/media/thumbnails/'' @ uuid4_hex ev @ ''.png''
         \<and> image_path out \<noteq> thumbnail_path out
         \<and> documents w' = documents w @ [(''study'', new_doc_id ev, study.truncate out)]
         \<and> files w' (os_path_join (MEDIA_ROOT ev) (''images/'' @ uuid4_hex ev @ ''.png''))
              = Some (fromarray [[0, 127], [255, 255]])
         \<and> files w' (os_path_join (MEDIA_ROOT ev) (''thumbnails/'' @ uuid4_hex ev @ ''.png''))
              = Some (fromarray [[0, 127], [255, 255]]))"
proof -
  have r: "int_attr (Rows e2e_dataset) (int (shape0 [[0, 127], [255, 255::uint8]])) = Inr 2"
    and c: "int_attr (Columns e2e_dataset) (int (shape1 [[0, 127], [255, 255::uint8]])) = Inr 2"
    and b: "int_attr (BitsAllocated e2e_dataset) 16 = Inr 16"
    by (simp_all add: int_attr_def e2e_dataset_def)
  have s1: "save_failure ev (os_path_join (MEDIA_ROOT ev) (''images/'' @ uuid4_hex ev @ ''.png'')) = None"
    and s2: "save_failure ev (os_path_join (MEDIA_ROOT ev) (''thumbnails/'' @ uuid4_hex ev @ ''.png'')) = None"
    using assms(3) by simp_all
  have th: "thumbnail (fromarray [[0, 127], [255, 255::uint8]]) (256, 256) = fromarray [[0, 127], [255, 255]]"
    by (simp add: thumbnail_def fromarray_def thumbnail_size_def shape0_def shape1_def)
  note run = dicom_run [OF assms(2) e2e_img8 r c b s1 s2, of w]
  note up = upload_run [OF assms(1) run assms(4)]
  have d: "os_path_join (MEDIA_ROOT ev) (''images/'' @ uuid4_hex ev @ ''.png'') \<noteq>
           os_path_join (MEDIA_ROOT ev) (''thumbnails/'' @ uuid4_hex ev @ ''.png'')"
    by (rule image_thumb_paths_differ)
  have p4: "\<exists>out w'. upload_dicom ev file w = (Inr out, w')
         \<and> rows out = 2 \<and> cols out = 2
         \<and> window_center out = Some 128 \<and> window_width out = Some 256
         \<and> image_path out = ''/media/images/'' @ uuid4_hex ev @ ''.png''
         \<and> thumbnail_path out = ''/media/thumbnails/'' @ uuid4_hex ev @ ''.png''
         \<and> image_path out \<noteq> thumbnail_path out
         \<and> documents w' = documents w @ [(''study'', new_doc_id ev, study.truncate out)]
         \<and> files w' (os_path_join (MEDIA_ROOT ev) (''images/'' @ uuid4_hex ev @ ''.png''))
              = Some (fromarray [[0, 127], [255, 255]])
         \<and> files w' (os_path_join (MEDIA_ROOT ev) (''thumbnails/'' @ uuid4_hex ev @ ''.png''))
              = Some (fromarray [[0, 127], [255, 255]])"
    unfolding up using d
    by (simp add: StudyOut_def Study_def study.defs meta.defs e2e_window th)
  show ?thesis
    using p4 e2e_window e2e_img8 by (simp add: e2e_rescale)
qed

theorem e2e_scenario_witness:
  "read some_file = Inr [68, 73, 67, 77] \<and>
   dcmread (ok_env e2e_dataset ''ab'') [68, 73, 67, 77] = Inr e2e_dataset \<and>
   (\<exists>out w'. upload_dicom (ok_env e2e_dataset ''ab'') some_file empty_world = (Inr out, w') \<and>
      rows out = 2 \<and> cols out = 2 \<and> image_path out = ''/media/images/ab.png'' \<and>
      documents w' = [(''study'', ''docab'', study.truncate out)])"
proof -
  have h1: "read some_file = Inr [68, 73, 67, 77]" by (simp add: some_file_def)
  have h2: "dcmread (ok_env e2e_dataset ''ab'') [68, 73, 67, 77] = Inr e2e_dataset"
    by (simp add: ok_env_def)
  have h3: "\<forall>p. save_failure (ok_env e2e_dataset ''ab'') p = None" by (simp add: ok_env_def)
  have h4: "create_failure (ok_env e2e_dataset ''ab'') = None" by (simp add: ok_env_def)
  have u: "uuid4_hex (ok_env e2e_dataset ''ab'') = ''ab''" "new_doc_id (ok_env e2e_dataset ''ab'') = ''docab''"
    by (simp_all add: ok_env_def)
  have d: "documents empty_world = []" by (simp add: empty_world_def)
  show ?thesis
    using h1 h2 e2e_scenario [OF h1 h2 h3 h4, of empty_world] unfolding u d by auto
qed

subsection \<open>Polarity\<close>

lemma word8_le_255: "(v::8 word) \<le> 255"
proof -
  have "(255::8 word) = - 1" by simp
  then show ?thesis by (simp only: word_n1_ge)
qed

lemma uint_invert: "uint (255 - (v::8 word)) = 255 - uint v"
  using word8_le_255 [of v] by (simp add: uint_minus_simple_alt)

lemma g_monochrome1:
  "g (PhotometricInterpretation ds) None = Some ''MONOCHROME1'' \<longleftrightarrow>
   PhotometricInterpretation ds = Present ''MONOCHROME1''"
  by (cases "PhotometricInterpretation ds") simp_all

lemma invert_invert: "invert (invert img) = img"
  by (simp add: invert_def amap_def comp_def)

lemma invert_example: "invert [[200]] = [[55]]"
  by (simp add: invert_def amap_def)

text \<open>
  Claim C4. The image the pipeline renders is the normalised 8-bit image (what the pipeline
  gives when the photometric interpretation is absent), with every sample \<open>v\<close> replaced by
  \<open>255 - v\<close> exactly when \<^verbatim>\<open>PhotometricInterpretation\<close> is \<^verbatim>\<open>MONOCHROME1\<close>, and unchanged
  for any other or absent value: the inversion acts on the 8-bit output, not on the real
  values. Inversion never wraps, inverting twice is the identity, and 200 gives 55.
\<close>

theorem polarity_inversion:
  "img8_of ds =
     (case img8_of (ds\<lparr>PhotometricInterpretation := Missing\<rparr>) of
        Inl e \<Rightarrow> Inl e
      | Inr n \<Rightarrow> Inr (if PhotometricInterpretation ds = Present ''MONOCHROME1''
                       then invert n else n))
   \<and> list_all2 (list_all2 (\<lambda>v y. y = 255 - v \<and> uint y = 255 - uint v)) img (invert img)
   \<and> invert (invert img) = img
   \<and> invert [[200]] = [[55]]"
proof -
  have w: "window_of (ds\<lparr>PhotometricInterpretation := Missing\<rparr>) = window_of ds"
    by (simp add: window_of_def cong: sum.case_cong)
  have r: "apply_rescale (ds\<lparr>PhotometricInterpretation := Missing\<rparr>) arr = apply_rescale ds arr" for arr
    by (simp add: apply_rescale_def cong: sum.case_cong)
  have 1: "img8_of ds =
     (case img8_of (ds\<lparr>PhotometricInterpretation := Missing\<rparr>) of
        Inl e \<Rightarrow> Inl e
      | Inr n \<Rightarrow> Inr (if PhotometricInterpretation ds = Present ''MONOCHROME1''
                       then invert n else n))"
    unfolding img8_of_def w r g_monochrome1
    by (simp split: prod.splits sum.splits)
  have 2: "list_all2 (list_all2 (\<lambda>v y. y = 255 - v \<and> uint y = 255 - uint v)) img (invert img)"
    unfolding invert_def samples_amap by (simp add: uint_invert)
  show ?thesis using 1 2 invert_invert invert_example by blast
qed

theorem polarity_inversion_witness:
  "img8_of (e2e_dataset\<lparr>PhotometricInterpretation := Present ''MONOCHROME1''\<rparr>) = Inr [[255, 128], [0, 0]]"
  using polarity_inversion [of "e2e_dataset\<lparr>PhotometricInterpretation := Present ''MONOCHROME1''\<rparr>"]
    e2e_img8
  by (simp add: e2e_dataset_def invert_def img8_of_def window_of_def float_first_def
      apply_rescale_def float_attr_def norm_defs)


subsection \<open>What a run of the pipeline leaves behind\<close>









subsection \<open>Selectors of the response\<close>

lemma StudyOut_fields:
  "patient_id (StudyOut (Study m) i) = patient_id m"
  "patient_name (StudyOut (Study m) i) = patient_name m"
  "modality (StudyOut (Study m) i) = modality m"
  "study_date (StudyOut (Study m) i) = study_date m"
  "series_description (StudyOut (Study m) i) = series_description m"
  "instance_number (StudyOut (Study m) i) = instance_number m"
  "rows (StudyOut (Study m) i) = rows m"
  "cols (StudyOut (Study m) i) = cols m"
  "bits_allocated (StudyOut (Study m) i) = bits_allocated m"
  "photometric_interpretation (StudyOut (Study m) i) = photometric_interpretation m"
  "window_center (StudyOut (Study m) i) = window_center m"
  "window_width (StudyOut (Study m) i) = window_width m"
  "image_path (StudyOut (Study m) i) = image_path m"
  "thumbnail_path (StudyOut (Study m) i) = thumbnail_path m"
  "findings (StudyOut (Study m) i) = None"
  "tags (StudyOut (Study m) i) = []"
  "doc_id (StudyOut (Study m) i) = Some i"
  by (simp_all add: StudyOut_def Study_def study.defs meta.defs)

text \<open>An upload in which every collaborator succeeds.\<close>

lemma ok_upload:
  assumes "img8_of ds = Inr img8"
    "int_attr (Rows ds) (int (shape0 img8)) = Inr r"
    "int_attr (Columns ds) (int (shape1 img8)) = Inr c"
    "int_attr (BitsAllocated ds) 16 = Inr b"
  shows "\<exists>m. upload_dicom (ok_env ds uid) some_file w =
     (Inr (StudyOut (Study m) (''doc'' @ uid)),
      w\<lparr>files := (files w)
           (''/srv/media/images/'' @ uid @ ''.png'' \<mapsto> fromarray img8,
            ''/srv/media/thumbnails/'' @ uid @ ''.png'' \<mapsto> thumbnail (fromarray img8) (256, 256)),
        documents := documents w @ [(''study'', ''doc'' @ uid, Study m)]\<rparr>)
     \<and> rows m = r \<and> cols m = c \<and> bits_allocated m = b
     \<and> window_center m = fst (window_of ds) \<and> window_width m = snd (window_of ds)
     \<and> image_path m = ''/media/images/'' @ uid @ ''.png''
     \<and> thumbnail_path m = ''/media/thumbnails/'' @ uid @ ''.png''"
proof -
  let ?ev = "ok_env ds uid"
  have d: "dcmread ?ev [68, 73, 67, 77] = Inr ds" by (simp add: ok_env_def)
  have s1: "save_failure ?ev (os_path_join (MEDIA_ROOT ?ev) (''images/'' @ uuid4_hex ?ev @ ''.png'')) = None"
    and s2: "save_failure ?ev (os_path_join (MEDIA_ROOT ?ev) (''thumbnails/'' @ uuid4_hex ?ev @ ''.png'')) = None"
    by (simp_all add: ok_env_def)
  note run = dicom_run [OF d assms s1 s2, of w]
  have rd: "read some_file = Inr [68, 73, 67, 77]" by (simp add: some_file_def)
  have cf: "create_failure ?ev = None" by (simp add: ok_env_def)
  note up = upload_run [OF rd run cf]
  have u: "uuid4_hex ?ev = uid" "new_doc_id ?ev = ''doc'' @ uid" by (simp_all add: ok_env_def)
  have p1: "os_path_join (MEDIA_ROOT ?ev) (''images/'' @ uid @ ''.png'')
      = ''/srv/media/images/'' @ uid @ ''.png''"
    unfolding join_images by (simp add: ok_env_def)
  have p2: "os_path_join (MEDIA_ROOT ?ev) (''thumbnails/'' @ uid @ ''.png'')
      = ''/srv/media/thumbnails/'' @ uid @ ''.png''"
    unfolding join_thumbnails by (simp add: ok_env_def)
  let ?m = "\<lparr>patient_id = g (PatientID ds) None,
                patient_name = g (PatientName ds) None,
                modality = g (Modality ds) None,
                study_date = g (StudyDate ds) None,
                series_description = g (SeriesDescription ds) None,
                instance_number = instance_number_of ds,
                rows = r,
                cols = c,
                bits_allocated = b,
                photometric_interpretation = g (PhotometricInterpretation ds) None,
                window_center = fst (window_of ds),
                window_width = snd (window_of ds),
                image_path = ''/media/images/'' @ uid @ ''.png'',
                thumbnail_path = ''/media/thumbnails/'' @ uid @ ''.png''\<rparr>"
  have up': "upload_dicom (ok_env ds uid) some_file w =
     (Inr (StudyOut (Study ?m) (''doc'' @ uid)),
      w\<lparr>files := (files w)
           (''/srv/media/images/'' @ uid @ ''.png'' \<mapsto> fromarray img8,
            ''/srv/media/thumbnails/'' @ uid @ ''.png'' \<mapsto> thumbnail (fromarray img8) (256, 256)),
        documents := documents w @ [(''study'', ''doc'' @ uid, Study ?m)]\<rparr>)"
    using up unfolding u p1 p2 by simp
  show ?thesis
    by (rule exI [of _ ?m]) (simp add: up')
qed


subsection \<open>All or nothing\<close>




subsection \<open>The thumbnail\<close>

lemma round_aspect_bounds:
  assumes "0 < number"
  shows "1 \<le> round_aspect number key"
    and "\<lfloor>number\<rfloor> \<le> round_aspect number key"
    and "round_aspect number key \<le> \<lceil>number\<rceil>"
proof -
  have c: "1 \<le> \<lceil>number\<rceil>" using assms by (simp add: le_ceiling_iff)
  have fc: "\<lfloor>number\<rfloor> \<le> \<lceil>number\<rceil>" by (rule floor_le_ceiling)
  show "1 \<le> round_aspect number key" by (simp add: round_aspect_def)
  show "\<lfloor>number\<rfloor> \<le> round_aspect number key"
    using fc by (auto simp add: round_aspect_def max_def)
  show "round_aspect number key \<le> \<lceil>number\<rceil>"
    using c fc by (auto simp add: round_aspect_def max_def)
qed

text \<open>The scaled side, for a side \<open>a\<close> no longer than the side \<open>b\<close> that exceeds the box.\<close>

lemma scaled_side:
  assumes "0 < a" "a \<le> b" "256 < b" "0 < number" "number = 256 * real a / real b"
    and t: "t = nat (round_aspect number key)"
  shows "1 \<le> t" and "t \<le> 256" and "t \<le> a" and "\<bar>real t * real b - 256 * real a\<bar> < real b"
proof -
  let ?r = "round_aspect number key"
  note b = round_aspect_bounds [OF assms(4), of key]
  have bpos: "0 < real b" using assms by simp
  have n256: "number \<le> 256"
    using assms bpos by (simp add: divide_le_eq)
  have na: "number \<le> real a"
  proof -
    have "256 * real a \<le> real a * real b" using assms by (simp add: mult.commute)
    then show ?thesis using bpos assms(5) by (simp add: divide_le_eq)
  qed
  have r256: "?r \<le> 256"
  proof -
    have "\<lceil>number\<rceil> \<le> 256" using n256 by (simp add: ceiling_le_iff)
    then show ?thesis using b(3) by linarith
  qed
  have ra: "?r \<le> int a"
  proof -
    have "\<lceil>number\<rceil> \<le> int a" using na by (simp add: ceiling_le_iff)
    then show ?thesis using b(3) by linarith
  qed
  have rt: "int t = ?r" using b(1) t by simp
  show "1 \<le> t" using b(1) t by simp
  show "t \<le> 256" using r256 rt by linarith
  show "t \<le> a" using ra rt by linarith
  have lo: "number - 1 < real_of_int ?r"
  proof -
    have "number - 1 < real_of_int \<lfloor>number\<rfloor>" by linarith
    also have "\<dots> \<le> real_of_int ?r" using b(2) by simp
    finally show ?thesis .
  qed
  have hi: "real_of_int ?r < number + 1"
  proof -
    have "real_of_int ?r \<le> real_of_int \<lceil>number\<rceil>" using b(3) by simp
    also have "\<dots> < number + 1" by linarith
    finally show ?thesis .
  qed
  have rr: "real t = real_of_int ?r" using rt by (metis of_int_of_nat_eq)
  have "\<bar>real t - number\<bar> < 1" using lo hi rr by linarith
  then have "\<bar>real t - number\<bar> * real b < 1 * real b"
    using bpos by (simp only: mult_strict_right_mono)
  moreover have "\<bar>real t - number\<bar> * real b = \<bar>real t * real b - 256 * real a\<bar>"
  proof -
    have "\<bar>real t - number\<bar> * real b = \<bar>(real t - number) * real b\<bar>"
      using bpos by (simp add: abs_mult)
    also have "(real t - number) * real b = real t * real b - 256 * real a"
      using bpos assms(5) by (simp add: algebra_simps)
    finally show ?thesis .
  qed
  ultimately show "\<bar>real t * real b - 256 * real a\<bar> < real b" by simp
qed

lemma thumbnail_fits:
  assumes "w \<le> 256" "h \<le> 256"
  shows "thumbnail_size (256, 256) (w, h) = (w, h)"
  using assms by (simp add: thumbnail_size_def)

lemma thumbnail_tall:
  assumes "0 < w" "w \<le> h" "256 < h"
  shows "\<exists>tw. thumbnail_size (256, 256) (w, h) = (tw, 256) \<and> 1 \<le> tw \<and> tw \<le> 256 \<and> tw \<le> w
     \<and> \<bar>real tw * real h - 256 * real w\<bar> < real h"
proof -
  let ?key = "\<lambda>n. \<bar>real w / real h - real_of_int n / real 256\<bar>"
  let ?number = "real 256 * (real w / real h)"
  have asp: "real w / real h \<le> 1" using assms by simp
  have sz: "thumbnail_size (256, 256) (w, h) = (nat (round_aspect ?number ?key), 256)"
    using assms asp by (simp add: thumbnail_size_def)
  have pos: "0 < ?number" using assms by simp
  have eq: "?number = 256 * real w / real h" by simp
  note s = scaled_side [OF assms(1) assms(2) assms(3) pos eq refl, of ?key]
  show ?thesis using sz s by blast
qed

lemma thumbnail_wide:
  assumes "0 < h" "h < w" "256 < w"
  shows "\<exists>th. thumbnail_size (256, 256) (w, h) = (256, th) \<and> 1 \<le> th \<and> th \<le> 256 \<and> th \<le> h
     \<and> \<bar>real th * real w - 256 * real h\<bar> < real w"
proof -
  let ?aspect = "real w / real h"
  let ?key = "\<lambda>n. if n = 0 then 0 else \<bar>?aspect - real 256 / real_of_int n\<bar>"
  let ?number = "real 256 / ?aspect"
  have asp: "\<not> 1 \<ge> ?aspect" using assms by simp
  have sz: "thumbnail_size (256, 256) (w, h) = (256, nat (round_aspect ?number ?key))"
    using assms asp by (simp add: thumbnail_size_def)
  have pos: "0 < ?number" using assms by simp
  have eq: "?number = 256 * real h / real w" by simp
  have hw: "h \<le> w" using assms by simp
  note s = scaled_side [OF assms(1) hw assms(3) pos eq refl, of ?key]
  show ?thesis using sz s by blast
qed

lemma thumbnail_example: "thumbnail_size (256, 256) (1024, 512) = (256, 128)"
  by (simp add: thumbnail_size_def round_aspect_def)

subsection \<open>The normaliser is total on a non-empty image\<close>

lemma concat_nonempty_lengths:
  "concat a \<noteq> [] \<longleftrightarrow> (\<exists>n \<in> set (map length a). n \<noteq> 0)"
  by (induction a) auto

lemma shape0_lengths: "shape0 a = length (map length a)"
  by (simp add: shape0_def)

lemma shape1_lengths: "shape1 a = (case map length a of [] \<Rightarrow> 0 | n # ns \<Rightarrow> n)"
  by (cases a) (simp_all add: shape1_def)

lemma rescale_total:
  assumes "concat (astype_float32 arr) \<noteq> []"
  shows "\<exists>out. rescale_to_uint8 arr wc ww = Inr out \<and>
     map length out = map length (astype_float32 arr)"
  by (simp add: rescale_to_uint8_def Let_def amin_Min [OF assms] amax_Max [OF assms]
      scale_to_uint8_amap amap_amap map_length_amap)

lemma apply_rescale_lengths:
  "map length (astype_float32 (apply_rescale ds arr)) = map length (astype_float32 arr)"
  by (simp add: apply_rescale_def amap_def comp_def split: sum.splits)

lemma img8_total:
  assumes "pixel_array ds = Inr arr" "concat (astype_float32 arr) \<noteq> []"
  shows "\<exists>img8. img8_of ds = Inr img8 \<and> map length img8 = map length (astype_float32 arr)"
proof -
  have ne: "concat (astype_float32 (apply_rescale ds arr)) \<noteq> []"
    using assms(2) unfolding concat_nonempty_lengths apply_rescale_lengths .
  obtain out where o: "rescale_to_uint8 (apply_rescale ds arr) (fst (window_of ds)) (snd (window_of ds)) = Inr out"
    "map length out = map length (astype_float32 (apply_rescale ds arr))"
    using rescale_total [OF ne] by blast
  have "img8_of ds =
      Inr (if g (PhotometricInterpretation ds) None = Some ''MONOCHROME1'' then invert out else out)"
    using assms(1) o(1) by (simp add: img8_of_def case_prod_beta)
  then show ?thesis
    using o(2) by (simp add: apply_rescale_lengths invert_def map_length_amap)
qed

lemma int_attr_Missing: "int_attr Missing d = Inr d"
  by (simp add: int_attr_def)

lemma int_attr_Present: "int_attr (Present v) d = py_int v"
  by (simp add: int_attr_def)

lemma g_alone: "g a None = (case a of Present s \<Rightarrow> Some s | _ \<Rightarrow> None)"
  by (cases a) simp_all

lemma instance_number_alone:
  "instance_number_of ds =
     (case InstanceNumber ds of
        Present v \<Rightarrow> (case py_int v of Inr i \<Rightarrow> Some i | Inl e \<Rightarrow> None)
      | _ \<Rightarrow> None)"
  by (simp add: instance_number_of_def split: attr.splits sum.splits)

subsection \<open>The window pair\<close>







lemma mod_ints:
  "int_attr (Rows (e2e_dataset\<lparr>WindowCenter := x\<rparr>)) d1 = Inr 2"
  "int_attr (Columns (e2e_dataset\<lparr>WindowCenter := x\<rparr>)) d2 = Inr 2"
  "int_attr (BitsAllocated (e2e_dataset\<lparr>WindowCenter := x\<rparr>)) d3 = Inr 16"
  by (simp_all add: int_attr_def e2e_dataset_def)





subsection \<open>Faults of single elements\<close>

lemma raises_window:
  "window_of (e2e_dataset\<lparr>WindowCenter := Raises e\<rparr>) = (None, None)"
  by (simp add: window_of_def e2e_dataset_def)

lemma raises_img8:
  "img8_of (e2e_dataset\<lparr>WindowCenter := Raises e\<rparr>) = Inr [[0, 63], [127, 255]]"
  unfolding img8_of_def raises_window
  by (simp add: e2e_dataset_def apply_rescale_def float_attr_def norm_defs)

text \<open>
  Lines 156 to 158 are not inside a \<^verbatim>\<open>try\<close>: an element there that \<^verbatim>\<open>int()\<close> rejects ends
  the request with the error response.
\<close>

lemma unguarded_int_coercion:
  "upload_dicom (ok_env (e2e_dataset\<lparr>BitsAllocated := Present PyNone\<rparr>) ''ab'') some_file empty_world
     = (Inl (HTTPException 400
          ''Failed to process DICOM: int() argument must be a string, a bytes-like object or a real number, not NoneType''),
        empty_world)"
proof -
  have w: "window_of (e2e_dataset\<lparr>BitsAllocated := Present PyNone\<rparr>) = (Some 128, Some 256)"
    by (simp add: window_of_def e2e_dataset_def float_first_def)
  have i: "img8_of (e2e_dataset\<lparr>BitsAllocated := Present PyNone\<rparr>) = Inr [[0, 127], [255, 255]]"
    unfolding img8_of_def w
    by (simp add: e2e_dataset_def apply_rescale_def float_attr_def norm_defs)
  let ?ds = "e2e_dataset\<lparr>BitsAllocated := Present PyNone\<rparr>"
  have d: "dcmread (ok_env ?ds ''ab'') [68, 73, 67, 77] = Inr ?ds" by (simp add: ok_env_def)
  have r: "int_attr (Rows ?ds) (int (shape0 [[0, 127], [255, 255::uint8]])) = Inr 2"
    and c: "int_attr (Columns ?ds) (int (shape1 [[0, 127], [255, 255::uint8]])) = Inr 2"
    and b: "int_attr (BitsAllocated ?ds) 16 = Inl (Exception
      ''int() argument must be a string, a bytes-like object or a real number, not NoneType'')"
    by (simp_all add: int_attr_def e2e_dataset_def)
  have run: "dicom_to_png_and_meta (ok_env ?ds ''ab'') [68, 73, 67, 77] empty_world =
      (Inl (Exception
        ''int() argument must be a string, a bytes-like object or a real number, not NoneType''),
       empty_world)"
    by (simp only: dicom_to_png_and_meta_def d i r c b sum.case)
  have rd: "read some_file = Inr [68, 73, 67, 77]" by (simp add: some_file_def)
  show ?thesis
    by (simp add: upload_dicom_def rd run failed_def)
qed

lemma int_attr_ok:
  assumes "a = Missing \<or> (\<exists>v i. a = Present v \<and> py_int v = Inr i)"
  shows "\<exists>r. int_attr a d = Inr r \<and> (a = Missing \<longrightarrow> r = d) \<and>
     (\<forall>v i. a = Present v \<longrightarrow> py_int v = Inr i \<longrightarrow> r = i)"
  using assms by (auto simp add: int_attr_def)

text \<open>
  Claim C6, as stated, fails: a \<^verbatim>\<open>WindowCenter\<close> element that raises when it is read
  degrades not that field alone; \<^verbatim>\<open>window_width\<close> is \<^verbatim>\<open>None\<close> in the record as well,
  although the \<^verbatim>\<open>WindowWidth\<close> element holds 256.
\<close>

theorem tag_fault_counterexample:
  "WindowWidth (e2e_dataset\<lparr>WindowCenter := Raises (Exception ''could not convert string to float'')\<rparr>)
      = Present (PyFloat 256)
   \<and> float_first (PyFloat 256) = Inr (Some 256)
   \<and> (\<exists>out w'. upload_dicom
          (ok_env (e2e_dataset\<lparr>WindowCenter := Raises (Exception ''could not convert string to float'')\<rparr>)
             ''ab'')
          some_file empty_world = (Inr out, w')
        \<and> window_center out = None \<and> window_width out = None)"
proof -
  let ?ds = "e2e_dataset\<lparr>WindowCenter := Raises (Exception ''could not convert string to float'')\<rparr>"
  obtain m w' where up: "upload_dicom (ok_env ?ds ''ab'') some_file empty_world
        = (Inr (StudyOut (Study m) (''doc'' @ ''ab'')), w')"
    and f: "window_center m = fst (window_of ?ds)" "window_width m = snd (window_of ?ds)"
    using ok_upload [OF raises_img8 mod_ints, where uid = "''ab''" and w = empty_world] by blast
  have 1: "WindowWidth ?ds = Present (PyFloat 256)"
    by (simp add: e2e_dataset_def)
  have 2: "float_first (PyFloat 256) = Inr (Some 256)" by (simp add: float_first_def)
  have 3: "window_center (StudyOut (Study m) (''doc'' @ ''ab'')) = None"
    "window_width (StudyOut (Study m) (''doc'' @ ''ab'')) = None"
    using f by (simp_all add: StudyOut_fields raises_window)
  show ?thesis using 1 2 up 3 by blast
qed

text \<open>
  Claim C6, amended. For a decodable input with a non-empty pixel array, whose \<^verbatim>\<open>Rows\<close>,
  \<^verbatim>\<open>Columns\<close> and \<^verbatim>\<open>BitsAllocated\<close> are each missing or accepted by \<^verbatim>\<open>int()\<close>, the upload
  succeeds when the writes and the record creation do, whatever the text elements,
  \<^verbatim>\<open>InstanceNumber\<close>, the window elements and the rescale elements hold. Each text field
  and \<^verbatim>\<open>instance_number\<close> depends on its own element alone and is \<^verbatim>\<open>None\<close> when that
  element is missing, raises or fails coercion; the two window fields depend on the two
  window elements only; missing \<^verbatim>\<open>Rows\<close>, \<^verbatim>\<open>Columns\<close>, \<^verbatim>\<open>BitsAllocated\<close> take the image's shape
  and 16.
\<close>

theorem tag_faults_degrade_alone:
  assumes "read upl = Inr content" and "dcmread ev content = Inr ds"
    and "pixel_array ds = Inr arr" and "concat (astype_float32 arr) \<noteq> []"
    and "Rows ds = Missing \<or> (\<exists>v i. Rows ds = Present v \<and> py_int v = Inr i)"
    and "Columns ds = Missing \<or> (\<exists>v i. Columns ds = Present v \<and> py_int v = Inr i)"
    and "BitsAllocated ds = Missing \<or> (\<exists>v i. BitsAllocated ds = Present v \<and> py_int v = Inr i)"
    and "\<forall>p. save_failure ev p = None" and "create_failure ev = None"
  shows "\<exists>out w'. upload_dicom ev upl w = (Inr out, w')
     \<and> patient_id out = (case PatientID ds of Present s \<Rightarrow> Some s | _ \<Rightarrow> None)
     \<and> patient_name out = (case PatientName ds of Present s \<Rightarrow> Some s | _ \<Rightarrow> None)
     \<and> modality out = (case Modality ds of Present s \<Rightarrow> Some s | _ \<Rightarrow> None)
     \<and> study_date out = (case StudyDate ds of Present s \<Rightarrow> Some s | _ \<Rightarrow> None)
     \<and> series_description out = (case SeriesDescription ds of Present s \<Rightarrow> Some s | _ \<Rightarrow> None)
     \<and> photometric_interpretation out =
          (case PhotometricInterpretation ds of Present s \<Rightarrow> Some s | _ \<Rightarrow> None)
     \<and> instance_number out =
          (case InstanceNumber ds of
             Present v \<Rightarrow> (case py_int v of Inr i \<Rightarrow> Some i | Inl e \<Rightarrow> None)
           | _ \<Rightarrow> None)
     \<and> (window_center out, window_width out) = window_of ds
     \<and> (Rows ds = Missing \<longrightarrow> rows out = int (shape0 (astype_float32 arr)))
     \<and> (\<forall>v i. Rows ds = Present v \<longrightarrow> py_int v = Inr i \<longrightarrow> rows out = i)
     \<and> (Columns ds = Missing \<longrightarrow> cols out = int (shape1 (astype_float32 arr)))
     \<and> (\<forall>v i. Columns ds = Present v \<longrightarrow> py_int v = Inr i \<longrightarrow> cols out = i)
     \<and> (BitsAllocated ds = Missing \<longrightarrow> bits_allocated out = 16)
     \<and> (\<forall>v i. BitsAllocated ds = Present v \<longrightarrow> py_int v = Inr i \<longrightarrow> bits_allocated out = i)"
proof -
  obtain img8 where i: "img8_of ds = Inr img8"
    and len: "map length img8 = map length (astype_float32 arr)"
    using img8_total [OF assms(3,4)] by blast
  have s0: "shape0 img8 = shape0 (astype_float32 arr)"
    unfolding shape0_lengths len ..
  have s1: "shape1 img8 = shape1 (astype_float32 arr)"
    unfolding shape1_lengths len ..
  obtain r where r: "int_attr (Rows ds) (int (shape0 img8)) = Inr r"
    "Rows ds = Missing \<longrightarrow> r = int (shape0 img8)"
    "\<forall>v i. Rows ds = Present v \<longrightarrow> py_int v = Inr i \<longrightarrow> r = i"
    using int_attr_ok [OF assms(5)] by blast
  obtain c where c: "int_attr (Columns ds) (int (shape1 img8)) = Inr c"
    "Columns ds = Missing \<longrightarrow> c = int (shape1 img8)"
    "\<forall>v i. Columns ds = Present v \<longrightarrow> py_int v = Inr i \<longrightarrow> c = i"
    using int_attr_ok [OF assms(6)] by blast
  obtain b where b: "int_attr (BitsAllocated ds) 16 = Inr b"
    "BitsAllocated ds = Missing \<longrightarrow> b = 16"
    "\<forall>v i. BitsAllocated ds = Present v \<longrightarrow> py_int v = Inr i \<longrightarrow> b = i"
    using int_attr_ok [OF assms(7)] by blast
  have sv: "save_failure ev (os_path_join (MEDIA_ROOT ev) (''images/'' @ uuid4_hex ev @ ''.png'')) = None"
    "save_failure ev (os_path_join (MEDIA_ROOT ev) (''thumbnails/'' @ uuid4_hex ev @ ''.png'')) = None"
    using assms(8) by simp_all
  note run = dicom_run [OF assms(2) i r(1) c(1) b(1) sv, of w]
  note up = upload_run [OF assms(1) run assms(9)]
  show ?thesis
    unfolding up
    using r(2,3) c(2,3) b(2,3)
    by (simp add: StudyOut_fields g_alone instance_number_alone s0 s1)
qed

theorem tag_faults_degrade_alone_witness:
  "\<exists>out w'. upload_dicom
      (ok_env (e2e_dataset\<lparr>PatientID := Raises (Exception ''bad element''),
                 InstanceNumber := Present PyNone,
                 WindowWidth := Present (PyMulti []),
                 RescaleSlope := Raises (Exception ''bad element''),
                 Rows := Missing\<rparr>) ''ab'')
      some_file empty_world = (Inr out, w')
    \<and> patient_id out = None \<and> instance_number out = None
    \<and> window_center out = Some 128 \<and> window_width out = None
    \<and> rows out = 2 \<and> cols out = 2 \<and> bits_allocated out = 16
    \<and> photometric_interpretation out = Some ''MONOCHROME2''"
proof -
  let ?ds = "e2e_dataset\<lparr>PatientID := Raises (Exception ''bad element''),
                 InstanceNumber := Present PyNone,
                 WindowWidth := Present (PyMulti []),
                 RescaleSlope := Raises (Exception ''bad element''),
                 Rows := Missing\<rparr>"
  let ?ev = "ok_env ?ds ''ab''"
  have h1: "read some_file = Inr [68, 73, 67, 77]" by (simp add: some_file_def)
  have h2: "dcmread ?ev [68, 73, 67, 77] = Inr ?ds" by (simp add: ok_env_def)
  have h3: "pixel_array ?ds = Inr (IntArr [[0, 128], [256, 512]])" by (simp add: e2e_dataset_def)
  have h4: "concat (astype_float32 (IntArr [[0, 128], [256, 512]])) \<noteq> []" by simp
  have h5: "Rows ?ds = Missing \<or> (\<exists>v i. Rows ?ds = Present v \<and> py_int v = Inr i)" by simp
  have h6: "Columns ?ds = Missing \<or> (\<exists>v i. Columns ?ds = Present v \<and> py_int v = Inr i)"
    by (simp add: e2e_dataset_def)
  have h7: "BitsAllocated ?ds = Missing \<or> (\<exists>v i. BitsAllocated ?ds = Present v \<and> py_int v = Inr i)"
    by (simp add: e2e_dataset_def)
  have h8: "\<forall>p. save_failure ?ev p = None" by (simp add: ok_env_def)
  have h9: "create_failure ?ev = None" by (simp add: ok_env_def)
  have w: "window_of ?ds = (Some 128, None)"
    by (simp add: window_of_def e2e_dataset_def float_first_def)
  obtain out w' where t: "upload_dicom ?ev some_file empty_world = (Inr out, w')"
    "patient_id out = (case PatientID ?ds of Present s \<Rightarrow> Some s | _ \<Rightarrow> None)"
    "photometric_interpretation out =
          (case PhotometricInterpretation ?ds of Present s \<Rightarrow> Some s | _ \<Rightarrow> None)"
    "instance_number out =
          (case InstanceNumber ?ds of
             Present v \<Rightarrow> (case py_int v of Inr i \<Rightarrow> Some i | Inl e \<Rightarrow> None)
           | _ \<Rightarrow> None)"
    "(window_center out, window_width out) = window_of ?ds"
    "Rows ?ds = Missing \<longrightarrow> rows out = int (shape0 (astype_float32 (IntArr [[0, 128], [256, 512]])))"
    "\<forall>v i. Columns ?ds = Present v \<longrightarrow> py_int v = Inr i \<longrightarrow> cols out = i"
    "\<forall>v i. BitsAllocated ?ds = Present v \<longrightarrow> py_int v = Inr i \<longrightarrow> bits_allocated out = i"
    using tag_faults_degrade_alone [OF h1 h2 h3 h4 h5 h6 h7 h8 h9, of empty_world] by blast
  have a: "patient_id out = None" "instance_number out = None"
    "photometric_interpretation out = Some ''MONOCHROME2''"
    using t(2,3,4) by (simp_all add: e2e_dataset_def)
  have b: "window_center out = Some 128" "window_width out = None"
    using t(5) unfolding w by simp_all
  have c: "rows out = 2" using t(6) by (simp add: shape0_def)
  have d: "cols out = 2" "bits_allocated out = 16"
    using t(7,8) by (simp_all add: e2e_dataset_def)
  show ?thesis using t(1) a b c d by blast
qed

subsection \<open>Identifiers and paths\<close>






subsection \<open>The thumbnail of an upload\<close>

lemma thumbnail_size_bounds:
  assumes "0 < w" "0 < h"
  shows "case thumbnail_size (256, 256) (w, h) of
           (tw, th) \<Rightarrow>
              1 \<le> tw \<and> tw \<le> 256 \<and> 1 \<le> th \<and> th \<le> 256 \<and> tw \<le> w \<and> th \<le> h
            \<and> (w \<le> 256 \<and> h \<le> 256 \<longrightarrow> tw = w \<and> th = h)
            \<and> \<bar>real tw * real h - real th * real w\<bar> < real (max w h)"
proof -
  consider (fits) "w \<le> 256" "h \<le> 256" | (tall) "w \<le> h" "256 < h" | (wide) "h < w" "256 < w"
    by linarith
  then show ?thesis
  proof cases
    case fits
    then show ?thesis using assms by (simp add: thumbnail_fits)
  next
    case tall
    obtain tw where "thumbnail_size (256, 256) (w, h) = (tw, 256)" "1 \<le> tw" "tw \<le> 256" "tw \<le> w"
      "\<bar>real tw * real h - 256 * real w\<bar> < real h"
      using thumbnail_tall [OF assms(1) tall] by blast
    then show ?thesis using tall by (simp add: max_def)
  next
    case wide
    obtain th where "thumbnail_size (256, 256) (w, h) = (256, th)" "1 \<le> th" "th \<le> 256" "th \<le> h"
      "\<bar>real th * real w - 256 * real h\<bar> < real w"
      using thumbnail_wide [OF assms(2) wide] by blast
    then show ?thesis using wide by (simp add: max_def abs_minus_commute)
  qed
qed

lemma thumbnail_fromarray:
  "thumbnail (fromarray img8) (256, 256) =
     \<lparr>im_width = fst (thumbnail_size (256, 256) (shape1 img8, shape0 img8)),
      im_height = snd (thumbnail_size (256, 256) (shape1 img8, shape0 img8)),
      im_source = img8\<rparr>"
  by (simp add: thumbnail_def fromarray_def split: prod.splits)

lemma shape1_positive:
  assumes "0 < shape1 a"
  shows "0 < shape0 a" and "concat a \<noteq> []"
  using assms by (cases a; simp add: shape1_def shape0_def)+

lemma shape_replicate:
  "shape0 (replicate n r) = n" "0 < n \<Longrightarrow> shape1 (replicate n r) = length r"
  by (cases n; simp add: shape0_def shape1_def)+

text \<open>
  Claim C9. When an upload is read and decoded, its pixel array has a sample in its
  first row, \<^verbatim>\<open>Rows\<close>, \<^verbatim>\<open>Columns\<close> and \<^verbatim>\<open>BitsAllocated\<close> are each missing or accepted by
  \<^verbatim>\<open>int()\<close>, and the writes and the record creation succeed, the upload succeeds and stores
  two files: the full image, which shows the normalised 8-bit image at the size of the
  pixel array, and the thumbnail, which shows the same normalised image (not the raw
  samples) at the size the fit into the box 256 by 256 gives. Both dimensions of the
  thumbnail are between 1 and 256 and at most those of the image; an image that already
  fits keeps its size; the aspect ratio is kept up to rounding of the scaled side to a
  whole pixel (\<open>|tw * h - th * w| < max w h\<close>). The same bounds hold for the fit of any
  image of positive width and height, and 1024 by 512 gives 256 by 128.
\<close>

theorem thumbnail_of_upload:
  assumes "read upl = Inr content" and "dcmread ev content = Inr ds"
    and "pixel_array ds = Inr arr" and "0 < shape1 (astype_float32 arr)"
    and "Rows ds = Missing \<or> (\<exists>v i. Rows ds = Present v \<and> py_int v = Inr i)"
    and "Columns ds = Missing \<or> (\<exists>v i. Columns ds = Present v \<and> py_int v = Inr i)"
    and "BitsAllocated ds = Missing \<or> (\<exists>v i. BitsAllocated ds = Present v \<and> py_int v = Inr i)"
    and "\<forall>p. save_failure ev p = None" and "create_failure ev = None"
  shows "(\<exists>out w' img8 tw th.
       upload_dicom ev upl w = (Inr out, w')
     \<and> img8_of ds = Inr img8
     \<and> shape1 img8 = shape1 (astype_float32 arr) \<and> shape0 img8 = shape0 (astype_float32 arr)
     \<and> thumbnail_path out = ''/media/thumbnails/'' @ uuid4_hex ev @ ''.png''
     \<and> files w' (os_path_join (MEDIA_ROOT ev) (''images/'' @ uuid4_hex ev @ ''.png''))
          = Some \<lparr>im_width = shape1 img8, im_height = shape0 img8, im_source = img8\<rparr>
     \<and> files w' (os_path_join (MEDIA_ROOT ev) (''thumbnails/'' @ uuid4_hex ev @ ''.png''))
          = Some \<lparr>im_width = tw, im_height = th, im_source = img8\<rparr>
     \<and> (tw, th) = thumbnail_size (256, 256) (shape1 img8, shape0 img8)
     \<and> 1 \<le> tw \<and> tw \<le> 256 \<and> 1 \<le> th \<and> th \<le> 256
     \<and> tw \<le> shape1 img8 \<and> th \<le> shape0 img8
     \<and> (shape1 img8 \<le> 256 \<and> shape0 img8 \<le> 256 \<longrightarrow> tw = shape1 img8 \<and> th = shape0 img8)
     \<and> \<bar>real tw * real (shape0 img8) - real th * real (shape1 img8)\<bar>
          < real (max (shape1 img8) (shape0 img8)))
   \<and> (0 < wd \<longrightarrow> 0 < ht \<longrightarrow>
        (case thumbnail_size (256, 256) (wd, ht) of
           (tw, th) \<Rightarrow>
              1 \<le> tw \<and> tw \<le> 256 \<and> 1 \<le> th \<and> th \<le> 256 \<and> tw \<le> wd \<and> th \<le> ht
            \<and> (wd \<le> 256 \<and> ht \<le> 256 \<longrightarrow> tw = wd \<and> th = ht)
            \<and> \<bar>real tw * real ht - real th * real wd\<bar> < real (max wd ht)))
   \<and> thumbnail_size (256, 256) (1024, 512) = (256, 128)"
proof -
  let ?i = "os_path_join (MEDIA_ROOT ev) (''images/'' @ uuid4_hex ev @ ''.png'')"
  let ?t = "os_path_join (MEDIA_ROOT ev) (''thumbnails/'' @ uuid4_hex ev @ ''.png'')"
  note ne = shape1_positive [OF assms(4)]
  obtain img8 where i: "img8_of ds = Inr img8"
    and len: "map length img8 = map length (astype_float32 arr)"
    using img8_total [OF assms(3) ne(2)] by blast
  have s0: "shape0 img8 = shape0 (astype_float32 arr)"
    unfolding shape0_lengths len ..
  have s1: "shape1 img8 = shape1 (astype_float32 arr)"
    unfolding shape1_lengths len ..
  have pos: "0 < shape1 img8" "0 < shape0 img8"
    using assms(4) ne(1) unfolding s0 s1 by simp_all
  obtain r where r: "int_attr (Rows ds) (int (shape0 img8)) = Inr r"
    using int_attr_ok [OF assms(5)] by blast
  obtain c where c: "int_attr (Columns ds) (int (shape1 img8)) = Inr c"
    using int_attr_ok [OF assms(6)] by blast
  obtain b where b: "int_attr (BitsAllocated ds) 16 = Inr b"
    using int_attr_ok [OF assms(7)] by blast
  have sv: "save_failure ev ?i = None" "save_failure ev ?t = None"
    using assms(8) by simp_all
  note run = dicom_run [OF assms(2) i r c b sv, of w]
  note up = upload_run [OF assms(1) run assms(9)]
  obtain tw th where sz: "thumbnail_size (256, 256) (shape1 img8, shape0 img8) = (tw, th)"
    by (cases "thumbnail_size (256, 256) (shape1 img8, shape0 img8)")
  have bounds: "1 \<le> tw \<and> tw \<le> 256 \<and> 1 \<le> th \<and> th \<le> 256
     \<and> tw \<le> shape1 img8 \<and> th \<le> shape0 img8
     \<and> (shape1 img8 \<le> 256 \<and> shape0 img8 \<le> 256 \<longrightarrow> tw = shape1 img8 \<and> th = shape0 img8)
     \<and> \<bar>real tw * real (shape0 img8) - real th * real (shape1 img8)\<bar>
          < real (max (shape1 img8) (shape0 img8))"
    using thumbnail_size_bounds [OF pos] unfolding sz by simp
  have th: "thumbnail (fromarray img8) (256, 256) = \<lparr>im_width = tw, im_height = th, im_source = img8\<rparr>"
    unfolding thumbnail_fromarray sz by simp
  have d: "?i \<noteq> ?t" by (rule image_thumb_paths_differ)
  let ?out = "StudyOut (Study \<lparr>patient_id = g (PatientID ds) None,
                patient_name = g (PatientName ds) None,
                modality = g (Modality ds) None,
                study_date = g (StudyDate ds) None,
                series_description = g (SeriesDescription ds) None,
                instance_number = instance_number_of ds,
                rows = r,
                cols = c,
                bits_allocated = b,
                photometric_interpretation = g (PhotometricInterpretation ds) None,
                window_center = fst (window_of ds),
                window_width = snd (window_of ds),
                image_path = ''/media/images/'' @ uuid4_hex ev @ ''.png'',
                thumbnail_path = ''/media/thumbnails/'' @ uuid4_hex ev @ ''.png''\<rparr>) (new_doc_id ev)"
  let ?w' = "w\<lparr>files := (files w)(?i \<mapsto> fromarray img8, ?t \<mapsto> thumbnail (fromarray img8) (256, 256)),
               documents := documents w @ [(''study'', new_doc_id ev, study.truncate ?out)]\<rparr>"
  have up': "\<exists>w'. upload_dicom ev upl w = (Inr ?out, w')
      \<and> files w' ?i = Some (fromarray img8)
      \<and> files w' ?t = Some (thumbnail (fromarray img8) (256, 256))"
    unfolding up using d by simp
  then obtain w' where u: "upload_dicom ev upl w = (Inr ?out, w')"
    "files w' ?i = Some (fromarray img8)"
    "files w' ?t = Some (thumbnail (fromarray img8) (256, 256))"
    by blast
  have tp: "thumbnail_path ?out = ''/media/thumbnails/'' @ uuid4_hex ev @ ''.png''"
    by (simp add: StudyOut_fields)
  have fi: "files w' ?i = Some \<lparr>im_width = shape1 img8, im_height = shape0 img8, im_source = img8\<rparr>"
    unfolding u(2) by (simp add: fromarray_def)
  have ft: "files w' ?t = Some \<lparr>im_width = tw, im_height = th, im_source = img8\<rparr>"
    unfolding u(3) th ..
  have 0: "upload_dicom ev upl w = (Inr ?out, w')
     \<and> img8_of ds = Inr img8
     \<and> shape1 img8 = shape1 (astype_float32 arr) \<and> shape0 img8 = shape0 (astype_float32 arr)
     \<and> thumbnail_path ?out = ''/media/thumbnails/'' @ uuid4_hex ev @ ''.png''
     \<and> files w' ?i = Some \<lparr>im_width = shape1 img8, im_height = shape0 img8, im_source = img8\<rparr>
     \<and> files w' ?t = Some \<lparr>im_width = tw, im_height = th, im_source = img8\<rparr>
     \<and> (tw, th) = thumbnail_size (256, 256) (shape1 img8, shape0 img8)
     \<and> 1 \<le> tw \<and> tw \<le> 256 \<and> 1 \<le> th \<and> th \<le> 256
     \<and> tw \<le> shape1 img8 \<and> th \<le> shape0 img8
     \<and> (shape1 img8 \<le> 256 \<and> shape0 img8 \<le> 256 \<longrightarrow> tw = shape1 img8 \<and> th = shape0 img8)
     \<and> \<bar>real tw * real (shape0 img8) - real th * real (shape1 img8)\<bar>
          < real (max (shape1 img8) (shape0 img8))"
    using u(1) i s1 s0 tp fi ft sz [symmetric] bounds by simp
  then have 1: "\<exists>out w' img8 tw th.
       upload_dicom ev upl w = (Inr out, w')
     \<and> img8_of ds = Inr img8
     \<and> shape1 img8 = shape1 (astype_float32 arr) \<and> shape0 img8 = shape0 (astype_float32 arr)
     \<and> thumbnail_path out = ''/media/thumbnails/'' @ uuid4_hex ev @ ''.png''
     \<and> files w' ?i = Some \<lparr>im_width = shape1 img8, im_height = shape0 img8, im_source = img8\<rparr>
     \<and> files w' ?t = Some \<lparr>im_width = tw, im_height = th, im_source = img8\<rparr>
     \<and> (tw, th) = thumbnail_size (256, 256) (shape1 img8, shape0 img8)
     \<and> 1 \<le> tw \<and> tw \<le> 256 \<and> 1 \<le> th \<and> th \<le> 256
     \<and> tw \<le> shape1 img8 \<and> th \<le> shape0 img8
     \<and> (shape1 img8 \<le> 256 \<and> shape0 img8 \<le> 256 \<longrightarrow> tw = shape1 img8 \<and> th = shape0 img8)
     \<and> \<bar>real tw * real (shape0 img8) - real th * real (shape1 img8)\<bar>
          < real (max (shape1 img8) (shape0 img8))"
    by blast
  have 2: "case thumbnail_size (256, 256) (wd, ht) of
           (tw, th) \<Rightarrow>
              1 \<le> tw \<and> tw \<le> 256 \<and> 1 \<le> th \<and> th \<le> 256 \<and> tw \<le> wd \<and> th \<le> ht
            \<and> (wd \<le> 256 \<and> ht \<le> 256 \<longrightarrow> tw = wd \<and> th = ht)
            \<and> \<bar>real tw * real ht - real th * real wd\<bar> < real (max wd ht)"
    if "0 < wd" "0 < ht"
    by (rule thumbnail_size_bounds [OF that])
  have 3: "0 < wd \<longrightarrow> 0 < ht \<longrightarrow>
        (case thumbnail_size (256, 256) (wd, ht) of
           (tw, th) \<Rightarrow>
              1 \<le> tw \<and> tw \<le> 256 \<and> 1 \<le> th \<and> th \<le> 256 \<and> tw \<le> wd \<and> th \<le> ht
            \<and> (wd \<le> 256 \<and> ht \<le> 256 \<longrightarrow> tw = wd \<and> th = ht)
            \<and> \<bar>real tw * real ht - real th * real wd\<bar> < real (max wd ht))"
    using 2 by (intro impI)
  show ?thesis
    by (rule conjI [OF 1 conjI [OF 3 thumbnail_example]])
qed

theorem thumbnail_of_upload_witness:
  "\<exists>out w' img8.
      upload_dicom
        (ok_env (e2e_dataset\<lparr>Rows := Present (PyInt 512), Columns := Present (PyInt 1024),
                   pixel_array := Inr (IntArr (replicate 512 (replicate 1024 7)))\<rparr>) ''ab'')
        some_file empty_world = (Inr out, w')
    \<and> thumbnail_path out = ''/media/thumbnails/ab.png''
    \<and> files w' ''/srv/media/images/ab.png''
        = Some \<lparr>im_width = 1024, im_height = 512, im_source = img8\<rparr>
    \<and> files w' ''/srv/media/thumbnails/ab.png''
        = Some \<lparr>im_width = 256, im_height = 128, im_source = img8\<rparr>"
proof -
  let ?arr = "IntArr (replicate 512 (replicate 1024 7))"
  let ?ds = "e2e_dataset\<lparr>Rows := Present (PyInt 512), Columns := Present (PyInt 1024),
                   pixel_array := Inr ?arr\<rparr>"
  let ?ev = "ok_env ?ds ''ab''"
  have a: "astype_float32 ?arr = replicate 512 (replicate 1024 (f32 7))"
    by simp
  have sh: "shape1 (astype_float32 ?arr) = 1024" "shape0 (astype_float32 ?arr) = 512"
    unfolding a by (simp_all add: shape_replicate)
  have h1: "read some_file = Inr [68, 73, 67, 77]" by (simp add: some_file_def)
  have h2: "dcmread ?ev [68, 73, 67, 77] = Inr ?ds" by (simp add: ok_env_def)
  have h3: "pixel_array ?ds = Inr ?arr" by simp
  have h4: "0 < shape1 (astype_float32 ?arr)" unfolding sh by simp
  have h5: "Rows ?ds = Missing \<or> (\<exists>v i. Rows ?ds = Present v \<and> py_int v = Inr i)" by simp
  have h6: "Columns ?ds = Missing \<or> (\<exists>v i. Columns ?ds = Present v \<and> py_int v = Inr i)" by simp
  have h7: "BitsAllocated ?ds = Missing \<or> (\<exists>v i. BitsAllocated ?ds = Present v \<and> py_int v = Inr i)"
    by (simp add: e2e_dataset_def)
  have h8: "\<forall>p. save_failure ?ev p = None" by (simp add: ok_env_def)
  have h9: "create_failure ?ev = None" by (simp add: ok_env_def)
  have p: "os_path_join (MEDIA_ROOT ?ev) (''images/'' @ uuid4_hex ?ev @ ''.png'') = ''/srv/media/images/ab.png''"
    "os_path_join (MEDIA_ROOT ?ev) (''thumbnails/'' @ uuid4_hex ?ev @ ''.png'') = ''/srv/media/thumbnails/ab.png''"
    "''/media/thumbnails/'' @ uuid4_hex ?ev @ ''.png'' = ''/media/thumbnails/ab.png''"
    by (simp_all add: ok_env_def os_path_join_def)
  note T = thumbnail_of_upload [OF h1 h2 h3 h4 h5 h6 h7 h8 h9, where w = empty_world]
  from conjunct1 [OF T] obtain out w' img8 tw th where
    t1: "upload_dicom ?ev some_file empty_world = (Inr out, w')"
    and t2: "shape1 img8 = shape1 (astype_float32 ?arr)"
    and t3: "shape0 img8 = shape0 (astype_float32 ?arr)"
    and t4: "thumbnail_path out = ''/media/thumbnails/'' @ uuid4_hex ?ev @ ''.png''"
    and t5: "files w' (os_path_join (MEDIA_ROOT ?ev) (''images/'' @ uuid4_hex ?ev @ ''.png''))
          = Some \<lparr>im_width = shape1 img8, im_height = shape0 img8, im_source = img8\<rparr>"
    and t6: "files w' (os_path_join (MEDIA_ROOT ?ev) (''thumbnails/'' @ uuid4_hex ?ev @ ''.png''))
          = Some \<lparr>im_width = tw, im_height = th, im_source = img8\<rparr>"
    and t7: "(tw, th) = thumbnail_size (256, 256) (shape1 img8, shape0 img8)"
    by (elim exE conjE) (rule that)
  have s: "shape1 img8 = 1024" "shape0 img8 = 512"
    using t2 t3 unfolding sh by simp_all
  have sz: "tw = 256" "th = 128"
    using t7 unfolding s thumbnail_example by simp_all
  have "upload_dicom ?ev some_file empty_world = (Inr out, w')
    \<and> thumbnail_path out = ''/media/thumbnails/ab.png''
    \<and> files w' ''/srv/media/images/ab.png''
        = Some \<lparr>im_width = 1024, im_height = 512, im_source = img8\<rparr>
    \<and> files w' ''/srv/media/thumbnails/ab.png''
        = Some \<lparr>im_width = 256, im_height = 128, im_source = img8\<rparr>"
    using t1 t4 t5 t6 unfolding p s sz by blast
  then show ?thesis by blast
qed

end
